theory Spec2Isabelle
  imports Complex_Main "HOL-Library.AList"
begin

section \<open>The administration record of the Dead-Hosts launcher\<close>

text \<open>
  A shallow embedding of \<^verbatim>\<open>InfoManager\<close> (\<^verbatim>\<open>dead_hosts/launcher/info_manager.py\<close>):
  the record \<^verbatim>\<open>self.content\<close>, the normalisation pass \<^verbatim>\<open>update\<close>, the defaults of
  \<^verbatim>\<open>create_missing_index\<close>, \<^verbatim>\<open>clean\<close>, \<^verbatim>\<open>store\<close> and \<^verbatim>\<open>get_ping_for_commit\<close>.
\<close>

subsection \<open>Values\<close>

text \<open>
  The exceptions that the modelled statements can raise. Every raise is a value
  \<open>Inl e\<close> of the result type \<open>error + 'a\<close>.
\<close>

datatype error = TypeError | ValueError | AttributeError | OverflowError | OSError | KeyError

text \<open>
  A Python \<^verbatim>\<open>float\<close>. Every finite binary64 number is a rational, so a finite float
  is carried by its exact rational value; which rational a conversion produces is
  decided by the library function that produces it (see \<open>env\<close> below).
\<close>

datatype pyfloat = Finite rat | PosInf | NegInf | NaN

text \<open>
  A naive \<^verbatim>\<open>datetime\<close>, identified by its distance in microseconds from
  \<^verbatim>\<open>1970-01-01T00:00:00\<close>, and a \<^verbatim>\<open>uuid.UUID\<close>, identified by its 128-bit
  integer value.
\<close>

datatype datetime = Datetime int

datatype uuid = UUID int

text \<open>
  The values held by the record: what \<^verbatim>\<open>json\<close> decodes (\<^verbatim>\<open>None\<close>, booleans,
  integers, floats, strings, lists, dictionaries with string keys) and the two in-memory
  types that \<^verbatim>\<open>update\<close> introduces. A dictionary is an association list in insertion
  order, as Python keeps it. Strings are ASCII.
\<close>

datatype pyval =
    PNone
  | PBool bool
  | PInt int
  | PFloat pyfloat
  | PStr string
  | PList "pyval list"
  | PDict "(string \<times> pyval) list"
  | PDatetime datetime
  | PUUID uuid

type_synonym content = "(string \<times> pyval) list"

text \<open>\<^verbatim>\<open>isinstance\<close> tests used by the source.\<close>

fun is_bool :: "pyval \<Rightarrow> bool" where
  "is_bool (PBool b) = True"
| "is_bool v = False"

fun is_float :: "pyval \<Rightarrow> bool" where
  "is_float (PFloat f) = True"
| "is_float v = False"

fun is_str :: "pyval \<Rightarrow> bool" where
  "is_str (PStr s) = True"
| "is_str v = False"

fun is_dict :: "pyval \<Rightarrow> bool" where
  "is_dict (PDict d) = True"
| "is_dict v = False"

fun is_datetime :: "pyval \<Rightarrow> bool" where
  "is_datetime (PDatetime d) = True"
| "is_datetime v = False"

fun is_uuid :: "pyval \<Rightarrow> bool" where
  "is_uuid (PUUID u) = True"
| "is_uuid v = False"

text \<open>
  Truth value of an object in a condition (\<^verbatim>\<open>if x:\<close>): \<^verbatim>\<open>None\<close>, \<^verbatim>\<open>False\<close>, zero and
  empty containers are false; \<^verbatim>\<open>datetime\<close> and \<^verbatim>\<open>UUID\<close> objects are always true.
\<close>

fun truthy :: "pyval \<Rightarrow> bool" where
  "truthy PNone = False"
| "truthy (PBool b) = b"
| "truthy (PInt n) = (n \<noteq> 0)"
| "truthy (PFloat f) = (f \<noteq> Finite 0)"
| "truthy (PStr s) = (s \<noteq> [])"
| "truthy (PList xs) = (xs \<noteq> [])"
| "truthy (PDict d) = (d \<noteq> [])"
| "truthy (PDatetime d) = True"
| "truthy (PUUID u) = True"

subsection \<open>Control flow\<close>

text \<open>Sequencing of statements that may raise, and \<^verbatim>\<open>try: ... except E: ...\<close>.\<close>

definition and_then :: "error + 'a \<Rightarrow> ('a \<Rightarrow> error + 'b) \<Rightarrow> error + 'b" where
  "and_then m f = (case m of Inl e \<Rightarrow> Inl e | Inr x \<Rightarrow> f x)"

definition try_except :: "error + 'a \<Rightarrow> error \<Rightarrow> 'a \<Rightarrow> error + 'a" where
  "try_except m E handler =
     (case m of Inl e \<Rightarrow> (if e = E then Inr handler else Inl e) | Inr x \<Rightarrow> Inr x)"

text \<open>\<^verbatim>\<open>for x in xs: body\<close> over a state; the first raise ends the loop.\<close>

fun for_each :: "'a list \<Rightarrow> ('a \<Rightarrow> 's \<Rightarrow> error + 's) \<Rightarrow> 's \<Rightarrow> error + 's" where
  "for_each [] body s = Inr s"
| "for_each (x # xs) body s =
     (case body x s of Inl e \<Rightarrow> Inl e | Inr s' \<Rightarrow> for_each xs body s')"

text \<open>A loop that builds a list with \<^verbatim>\<open>append\<close>.\<close>

fun collect :: "('a \<Rightarrow> error + 'b) \<Rightarrow> 'a list \<Rightarrow> error + 'b list" where
  "collect f [] = Inr []"
| "collect f (x # xs) =
     (case f x of Inl e \<Rightarrow> Inl e
      | Inr y \<Rightarrow> (case collect f xs of Inl e \<Rightarrow> Inl e | Inr ys \<Rightarrow> Inr (y # ys)))"

subsection \<open>Strings\<close>

definition startswith :: "string \<Rightarrow> string \<Rightarrow> bool" where
  "startswith s p = (take (length p) s = p)"

definition endswith :: "string \<Rightarrow> string \<Rightarrow> bool" where
  "endswith s p = (length p \<le> length s \<and> drop (length s - length p) s = p)"

text \<open>\<^verbatim>\<open>str.lower\<close> on ASCII: the letters \<^verbatim>\<open>A\<close> to \<^verbatim>\<open>Z\<close> move to \<^verbatim>\<open>a\<close> to \<^verbatim>\<open>z\<close>.\<close>

definition lower_char :: "char \<Rightarrow> char" where
  "lower_char ch =
     (let n = of_char ch :: nat in if 65 \<le> n \<and> n \<le> 90 then char_of (n + 32) else ch)"

definition lower :: "string \<Rightarrow> string" where
  "lower s = map lower_char s"

text \<open>\<^verbatim>\<open>s.replace(old, new)\<close> for a pattern \<^verbatim>\<open>old\<close> of one character.\<close>

definition replace :: "char \<Rightarrow> string \<Rightarrow> string \<Rightarrow> string" where
  "replace old new s = concat (map (\<lambda>ch. if ch = old then new else [ch]) s)"

text \<open>\<^verbatim>\<open>sep.join(xs)\<close> on strings.\<close>

fun join :: "string \<Rightarrow> string list \<Rightarrow> string" where
  "join sep [] = []"
| "join sep [x] = x"
| "join sep (x # y # ys) = x @ sep @ join sep (y # ys)"

subsection \<open>The environment\<close>

text \<open>
  What \<^verbatim>\<open>info_manager.py\<close> takes from outside: the two constants of
  \<^verbatim>\<open>dead_hosts.launcher.defaults.paths\<close>, the clock, and the library functions it calls
  (\<^verbatim>\<open>datetime\<close>, \<^verbatim>\<open>uuid\<close>, the builtins \<^verbatim>\<open>float\<close> and \<^verbatim>\<open>int\<close>, PyFunceble's
  \<^verbatim>\<open>DictHelper.flatten\<close>). They are parameters of the model: each function is handed the
  argument the source hands it and answers with a value or with the exception it raises.
\<close>

record env =
  GIT_BASE_NAME :: string
  GIT_REPO_OWNER :: string
  utcnow :: datetime
  utcfromtimestamp :: "pyval \<Rightarrow> error + datetime"
  fromisoformat :: "pyval \<Rightarrow> error + datetime"
  timestamp :: "datetime \<Rightarrow> error + pyfloat"
  isoformat :: "datetime \<Rightarrow> string"
  py_float :: "pyval \<Rightarrow> error + pyfloat"
  py_int :: "pyval \<Rightarrow> error + int"
  uuid_UUID :: "pyval \<Rightarrow> error + uuid"
  uuid_str :: "uuid \<Rightarrow> string"
  flatten :: "(string \<times> pyval) list \<Rightarrow> (string \<times> pyval) list"

subsection \<open>\<^verbatim>\<open>update\<close>\<close>

text \<open>
  The legacy files scheduled for deletion, as names inside the workspace directory.
  \<^verbatim>\<open>os.path.join\<close> raises \<^verbatim>\<open>TypeError\<close> on a \<^verbatim>\<open>list_name\<close> that is not a string. The
  deletions themselves act on the file system only; they neither read nor write the
  record and are not part of the model.
\<close>

definition to_delete :: "content \<Rightarrow> error + string list" where
  "to_delete c =
     (case map_of c ''list_name'' of
        None \<Rightarrow> Inr [''.administrators'', ''update_me.py'', ''admin.py'']
      | Some (PStr s) \<Rightarrow> Inr [''.administrators'', ''update_me.py'', ''admin.py'', s]
      | Some v \<Rightarrow> Inl TypeError)"

text \<open>
  \<^verbatim>\<open>for username in self.content["ping"]\<close>: a list yields its elements, a string its
  characters, a dictionary its keys; nothing else can be iterated.
\<close>

fun iterate :: "pyval \<Rightarrow> error + pyval list" where
  "iterate (PList xs) = Inr xs"
| "iterate (PStr s) = Inr (map (\<lambda>ch. PStr [ch]) s)"
| "iterate (PDict d) = Inr (map (\<lambda>kv. PStr (fst kv)) d)"
| "iterate v = Inl TypeError"

text \<open>The body of the \<^verbatim>\<open>ping\<close> loop; only strings have \<^verbatim>\<open>startswith\<close>.\<close>

fun ping_entry :: "pyval \<Rightarrow> error + pyval" where
  "ping_entry (PStr username) =
     Inr (PStr (if startswith username ''@'' then username else ''@'' @ username))"
| "ping_entry v = Inl AttributeError"

definition update_ping :: "content \<Rightarrow> error + content" where
  "update_ping c =
     (case map_of c ''ping'' of
        None \<Rightarrow> Inr c
      | Some p \<Rightarrow>
          and_then (iterate p) (\<lambda>usernames.
          and_then (collect ping_entry usernames) (\<lambda>local_ping_result.
          Inr (AList.update ''ping'' (PList local_ping_result) c))))"

definition update_raw_link :: "content \<Rightarrow> content" where
  "update_raw_link c =
     (case map_of c ''raw_link'' of
        None \<Rightarrow> c
      | Some v \<Rightarrow> if is_str v \<and> \<not> truthy v then AList.update ''raw_link'' PNone c else c)"

text \<open>The two consecutive blocks on \<^verbatim>\<open>custom_pyfunceble_config\<close>.\<close>

definition update_custom_config :: "env \<Rightarrow> content \<Rightarrow> content" where
  "update_custom_config env c =
     (let c1 =
        (case map_of c ''custom_pyfunceble_config'' of
           None \<Rightarrow> c
         | Some v \<Rightarrow>
             if truthy v then
               (case v of
                  PDict d \<Rightarrow> AList.update ''custom_pyfunceble_config'' (PDict (flatten env d)) c
                | _ \<Rightarrow> AList.update ''custom_pyfunceble_config'' (PDict []) c)
             else AList.update ''custom_pyfunceble_config'' (PDict []) c)
      in
        (case map_of c1 ''custom_pyfunceble_config'' of
           None \<Rightarrow> c1
         | Some v \<Rightarrow>
             if truthy v \<and> \<not> is_dict v
             then AList.update ''custom_pyfunceble_config'' (PDict []) c1 else c1))"

text \<open>The bodies of the five loops over field names.\<close>

definition coerce_bool :: "env \<Rightarrow> string \<Rightarrow> content \<Rightarrow> error + content" where
  "coerce_bool env index c =
     (case map_of c index of
        None \<Rightarrow> Inr c
      | Some v \<Rightarrow>
          if \<not> is_bool v
          then and_then (py_int env v) (\<lambda>n. Inr (AList.update index (PBool (n \<noteq> 0)) c))
          else Inr c)"

definition coerce_float :: "env \<Rightarrow> string \<Rightarrow> content \<Rightarrow> error + content" where
  "coerce_float env index c =
     (case map_of c index of
        None \<Rightarrow> Inr c
      | Some v \<Rightarrow>
          if \<not> is_float v
          then and_then (py_float env v) (\<lambda>f. Inr (AList.update index (PFloat f) c))
          else Inr c)"

definition convert_timestamp :: "env \<Rightarrow> datetime \<Rightarrow> string \<Rightarrow> content \<Rightarrow> error + content" where
  "convert_timestamp env epoch_dt index c =
     (case map_of c index of
        None \<Rightarrow> Inr c
      | Some v \<Rightarrow>
          if \<not> is_datetime v
          then and_then (try_except (utcfromtimestamp env v) OSError epoch_dt)
                 (\<lambda>d. Inr (AList.update index (PDatetime d) c))
          else Inr c)"

definition convert_datetime :: "env \<Rightarrow> datetime \<Rightarrow> string \<Rightarrow> content \<Rightarrow> error + content" where
  "convert_datetime env epoch_dt index c =
     (case map_of c index of
        None \<Rightarrow> Inr c
      | Some v \<Rightarrow>
          if truthy v \<and> \<not> is_datetime v
          then and_then (try_except (fromisoformat env v) ValueError epoch_dt)
                 (\<lambda>d. Inr (AList.update index (PDatetime d) c))
          else Inr (AList.update index (PDatetime epoch_dt) c))"

definition convert_uuid :: "env \<Rightarrow> string \<Rightarrow> content \<Rightarrow> error + content" where
  "convert_uuid env index c =
     (case map_of c index of
        None \<Rightarrow> Inr c
      | Some v \<Rightarrow>
          if truthy v \<and> \<not> is_uuid v
          then and_then (uuid_UUID env v) (\<lambda>u. Inr (AList.update index (PUUID u) c))
          else Inr (AList.update index PNone c))"

text \<open>
  The lists the loops run over, as the source writes them. In the third one Python joins
  the adjacent literals \<^verbatim>\<open>"last_download_timestamp" "latest_part_finish_timestamp"\<close>
  (no comma between them) into a single string.
\<close>

definition bool_indexes :: "string list" where
  "bool_indexes = [''currently_under_test'', ''ping_enabled'']"

definition float_indexes :: "string list" where
  "float_indexes =
     [''days_until_next_test'',
      ''finish_timestamp'',
      ''last_download_timestamp'' @ ''latest_part_finish_timestamp'',
      ''latest_part_start_timestamp'',
      ''start_timestamp'']"

definition timestamp_indexes :: "string list" where
  "timestamp_indexes =
     [''finish_timestamp'',
      ''last_download_timestamp'',
      ''latest_part_finish_timestamp'',
      ''latest_part_start_timestamp'',
      ''start_timestamp'']"

definition datetime_indexes :: "string list" where
  "datetime_indexes =
     [''finish_datetime'',
      ''last_download_datetime'',
      ''latest_part_finish_datetime'',
      ''latest_part_start_datetime'',
      ''start_datetime'']"

definition uuid_indexes :: "string list" where
  "uuid_indexes = [''platform_container_id'', ''platform_remote_source_id'']"

text \<open>The derivation of \<^verbatim>\<open>platform_container_name\<close> at the end of \<^verbatim>\<open>update\<close>.\<close>

definition container_name :: "string \<Rightarrow> string" where
  "container_name name =
     take 128
       (replace CHR ''.'' ''-''
         (replace CHR '')'' []
           (replace CHR ''('' []
             (replace CHR '']'' []
               (replace CHR ''['' []
                 (replace CHR '' '' ''-'' (lower name)))))))"

definition update_container_name :: "content \<Rightarrow> error + content" where
  "update_container_name c =
     (case map_of c ''name'' of
        None \<Rightarrow> Inl KeyError
      | Some (PStr name) \<Rightarrow>
          Inr (AList.update ''platform_container_name'' (PStr (container_name name)) c)
      | Some v \<Rightarrow> Inl AttributeError)"

definition repo_name :: "env \<Rightarrow> string" where
  "repo_name env = GIT_REPO_OWNER env @ ''/'' @ GIT_BASE_NAME env"

definition update :: "env \<Rightarrow> content \<Rightarrow> error + content" where
  "update env c0 =
     (let c1 = AList.update ''name'' (PStr (GIT_BASE_NAME env)) c0 in
      and_then (to_delete c1) (\<lambda>files.
      and_then (update_ping c1) (\<lambda>c2.
      let c3 = update_raw_link c2;
          c4 = update_custom_config env c3 in
      and_then (for_each bool_indexes (coerce_bool env) c4) (\<lambda>c5.
      and_then (for_each float_indexes (coerce_float env) c5) (\<lambda>c6.
      and_then (utcfromtimestamp env (PInt 0)) (\<lambda>epoch_dt.
      and_then (for_each timestamp_indexes (convert_timestamp env epoch_dt) c6) (\<lambda>c7.
      and_then (for_each datetime_indexes (convert_datetime env epoch_dt) c7) (\<lambda>c8.
      and_then (for_each uuid_indexes (convert_uuid env) c8) (\<lambda>c9.
      update_container_name (AList.update ''repo'' (PStr (repo_name env)) c9))))))))))"

subsection \<open>\<^verbatim>\<open>create_missing_index\<close>, \<^verbatim>\<open>clean\<close>, \<^verbatim>\<open>store\<close>\<close>

text \<open>\<^verbatim>\<open>d - timedelta(days=n)\<close>.\<close>

fun minus_days :: "datetime \<Rightarrow> int \<Rightarrow> datetime" where
  "minus_days (Datetime us) n = Datetime (us - n * 86400000000)"

text \<open>The default derivation of \<^verbatim>\<open>platform_container_name\<close> (it leaves dots alone).\<close>

definition default_container_name :: "string \<Rightarrow> string" where
  "default_container_name name =
     take 128
       (replace CHR '')'' []
         (replace CHR ''('' []
           (replace CHR '']'' []
             (replace CHR ''['' []
               (replace CHR '' '' ''-'' (lower name))))))"

definition indexes :: "env \<Rightarrow> error + content" where
  "indexes env =
     (let default_datetime = minus_days (utcnow env) 15 in
      and_then (utcfromtimestamp env (PInt 0)) (\<lambda>epoch_dt.
      and_then (timestamp env default_datetime) (\<lambda>default_timestamp.
      Inr
        [(''currently_under_test'', PBool False),
         (''custom_pyfunceble_config'', PDict []),
         (''days_until_next_test'', PInt 2),
         (''finish_datetime'', PDatetime default_datetime),
         (''finish_timestamp'', PFloat default_timestamp),
         (''last_download_datetime'', PDatetime default_datetime),
         (''last_download_timestamp'', PFloat default_timestamp),
         (''latest_part_finish_timestamp'', PFloat default_timestamp),
         (''latest_part_start_timestamp'', PFloat default_timestamp),
         (''latest_part_finish_datetime'', PDatetime default_datetime),
         (''latest_part_start_datetime'', PDatetime default_datetime),
         (''name'', PStr (GIT_BASE_NAME env)),
         (''repo'', PStr (repo_name env)),
         (''platform_container_name'', PStr (default_container_name (GIT_BASE_NAME env))),
         (''platform_description'', PStr ''Imported from Dead-Hosts legacy infrastructure.''),
         (''own_management'', PBool False),
         (''ping'', PList []),
         (''ping_enabled'', PBool False),
         (''raw_link'', PNone),
         (''start_datetime'', PDatetime default_datetime),
         (''start_timestamp'', PFloat default_timestamp),
         (''live_update'', PBool True),
         (''platform_container_id'', PNone),
         (''platform_remote_source_id'', PNone),
         (''platform_optout'', PBool (GIT_REPO_OWNER env \<noteq> ''dead-hosts''))])))"

definition create_index :: "string \<times> pyval \<Rightarrow> content \<Rightarrow> content" where
  "create_index kv c = (if map_of c (fst kv) = None then AList.update (fst kv) (snd kv) c else c)"

definition create_missing_index :: "env \<Rightarrow> content \<Rightarrow> error + content" where
  "create_missing_index env c = and_then (indexes env) (\<lambda>ixs. Inr (fold create_index ixs c))"

definition clean_indexes :: "string list" where
  "clean_indexes =
     [''arguments'',
      ''clean_list_file'',
      ''clean_original'',
      ''commit_autosave_message'',
      ''last_test'',
      ''list_name'',
      ''stable'',
      ''platform_shortname'']"

definition clean_index :: "string \<Rightarrow> content \<Rightarrow> content" where
  "clean_index index c = (if map_of c index \<noteq> None then AList.delete index c else c)"

definition clean :: "content \<Rightarrow> content" where
  "clean c = fold clean_index clean_indexes c"

text \<open>
  One turn of the loop of \<^verbatim>\<open>store\<close>: the value written for \<^verbatim>\<open>index\<close>.
  \<^verbatim>\<open>copy.deepcopy\<close> of a value is the value.
\<close>

fun store_value :: "env \<Rightarrow> string \<Rightarrow> pyval \<Rightarrow> error + pyval" where
  "store_value env index (PDatetime d) =
     (if endswith index ''_timestamp''
      then and_then (try_except (timestamp env d) OSError (Finite 0)) (\<lambda>f. Inr (PFloat f))
      else if endswith index ''_datetime'' then Inr (PStr (isoformat env d))
      else Inr (PDatetime d))"
| "store_value env index (PUUID u) = Inr (PStr (uuid_str env u))"
| "store_value env index v = Inr v"

definition store_item :: "env \<Rightarrow> string \<times> pyval \<Rightarrow> content \<Rightarrow> error + content" where
  "store_item env kv local_copy =
     and_then (store_value env (fst kv) (snd kv))
       (\<lambda>v. Inr (AList.update (fst kv) v local_copy))"

text \<open>
  \<^verbatim>\<open>store\<close> leaves the record as it is and hands \<^verbatim>\<open>local_copy\<close> to the JSON writer; the
  model returns \<^verbatim>\<open>local_copy\<close>, the dictionary that the file then holds.
\<close>

definition store :: "env \<Rightarrow> content \<Rightarrow> error + content" where
  "store env c = for_each c (store_item env) []"

text \<open>
  The normalisation that \<^verbatim>\<open>__init__\<close> runs on the loaded dictionary, up to and without
  \<^verbatim>\<open>store\<close>.
\<close>

definition normalize_content :: "env \<Rightarrow> content \<Rightarrow> error + content" where
  "normalize_content env c =
     and_then (update env c) (\<lambda>c1.
     and_then (create_missing_index env c1) (\<lambda>c2. Inr (clean c2)))"

subsection \<open>\<^verbatim>\<open>get_ping_for_commit\<close>\<close>

text \<open>\<^verbatim>\<open>" ".join(x)\<close>: \<^verbatim>\<open>x\<close> has to be iterable and each of its items a string.\<close>

fun join_item :: "pyval \<Rightarrow> error + string" where
  "join_item (PStr s) = Inr s"
| "join_item v = Inl TypeError"

definition join_value :: "string \<Rightarrow> pyval \<Rightarrow> error + string" where
  "join_value sep x =
     and_then (iterate x) (\<lambda>items.
     and_then (collect join_item items) (\<lambda>strings. Inr (join sep strings)))"

definition get_ping_for_commit :: "content \<Rightarrow> error + string" where
  "get_ping_for_commit c =
     (case map_of c ''ping_enabled'' of
        None \<Rightarrow> Inr ''''
      | Some ping_enabled \<Rightarrow>
          (case map_of c ''ping'' of
             None \<Rightarrow> Inr ''''
           | Some ping \<Rightarrow>
               if ping_enabled = PBool True \<and> truthy ping
               then join_value '' '' ping
               else Inr ''''))"

text \<open>Reading one field off the outcome of a run.\<close>

definition field :: "string \<Rightarrow> error + content \<Rightarrow> error + pyval option" where
  "field index r = and_then r (\<lambda>c. Inr (map_of c index))"

subsection \<open>The specification's wording\<close>

text \<open>
  The derivation of \<^verbatim>\<open>platform_container_name\<close> as the specification words it: lower
  case, each space turned into a hyphen, the characters \<^verbatim>\<open>[ ] ( ) .\<close> removed, at most
  128 characters.
\<close>

definition spec_container_name :: "string \<Rightarrow> string" where
  "spec_container_name name =
     take 128
       (map (\<lambda>ch. if ch = CHR '' '' then CHR ''-'' else ch)
         (filter (\<lambda>ch. ch \<notin> set ''[]().'') (lower name)))"

text \<open>The same with the dot turned into a hyphen instead of removed.\<close>

definition hyphenated_container_name :: "string \<Rightarrow> string" where
  "hyphenated_container_name name =
     take 128
       (map (\<lambda>ch. if ch = CHR '' '' \<or> ch = CHR ''.'' then CHR ''-'' else ch)
         (filter (\<lambda>ch. ch \<notin> set ''[]()'') (lower name)))"

text \<open>A string that starts with exactly one \<^verbatim>\<open>@\<close>.\<close>

fun starts_with_one_at :: "string \<Rightarrow> bool" where
  "starts_with_one_at [] = False"
| "starts_with_one_at (ch # rest) = (ch = CHR ''@'' \<and> \<not> startswith rest ''@'')"

subsection \<open>Sample environments\<close>

text \<open>
  Concrete environments for the examples: the answers of CPython's library on a POSIX
  host (glibc, 64-bit \<^verbatim>\<open>time_t\<close>) whose local time is a fixed number of seconds ahead
  of UTC, and the variant of \<^verbatim>\<open>utcfromtimestamp\<close> of a Windows host. They cover the
  arguments that the examples pass; what they leave out is said at each function.
\<close>

definition round_half_even :: "rat \<Rightarrow> int" where
  "round_half_even q =
     (let n = \<lfloor>q\<rfloor>; r = q - of_int n in
      if r < 1 / 2 then n else if 1 / 2 < r then n + 1 else if even n then n else n + 1)"

text \<open>
  \<^verbatim>\<open>datetime.utcfromtimestamp\<close>: \<^verbatim>\<open>OverflowError\<close> outside \<^verbatim>\<open>time_t\<close>, \<^verbatim>\<open>OSError\<close> where
  \<^verbatim>\<open>gmtime\<close> fails, \<^verbatim>\<open>ValueError\<close> for a year outside 1 to 9999, else the instant
  rounded to microseconds.
\<close>

definition posix_from_seconds :: "rat \<Rightarrow> error + datetime" where
  "posix_from_seconds q =
     (if q < - (2 ^ 63) \<or> 2 ^ 63 \<le> q then Inl OverflowError
      else if q < - 67768040609740800 \<or> 67767976233532800 \<le> q then Inl OSError
      else
        (let us = round_half_even (q * 1000000) in
         if us < - 62135596800000000 \<or> 253402300800000000 \<le> us then Inl ValueError
         else Inr (Datetime us)))"

fun posix_utcfromtimestamp :: "pyval \<Rightarrow> error + datetime" where
  "posix_utcfromtimestamp (PInt n) = posix_from_seconds (of_int n)"
| "posix_utcfromtimestamp (PBool b) = posix_from_seconds (if b then 1 else 0)"
| "posix_utcfromtimestamp (PFloat (Finite q)) = posix_from_seconds q"
| "posix_utcfromtimestamp (PFloat NaN) = Inl ValueError"
| "posix_utcfromtimestamp (PFloat f) = Inl OverflowError"
| "posix_utcfromtimestamp v = Inl TypeError"

text \<open>
  On Windows \<^verbatim>\<open>gmtime\<close> rejects every time before the epoch and every time after the
  year 3000, and \<^verbatim>\<open>utcfromtimestamp\<close> raises \<^verbatim>\<open>OSError\<close> there.
\<close>

definition windows_from_seconds :: "rat \<Rightarrow> error + datetime" where
  "windows_from_seconds q =
     (let us = round_half_even (q * 1000000) in
      if us < 0 \<or> 32535216000000000 \<le> us then Inl OSError else Inr (Datetime us))"

fun windows_utcfromtimestamp :: "pyval \<Rightarrow> error + datetime" where
  "windows_utcfromtimestamp (PInt n) = windows_from_seconds (of_int n)"
| "windows_utcfromtimestamp (PBool b) = windows_from_seconds (if b then 1 else 0)"
| "windows_utcfromtimestamp (PFloat (Finite q)) = windows_from_seconds q"
| "windows_utcfromtimestamp (PFloat NaN) = Inl ValueError"
| "windows_utcfromtimestamp (PFloat f) = Inl OverflowError"
| "windows_utcfromtimestamp v = Inl TypeError"

text \<open>
  \<^verbatim>\<open>d.timestamp()\<close> reads a naive \<^verbatim>\<open>datetime\<close> as local time: with the local clock
  \<open>utcoffset\<close> seconds ahead of UTC, it is the distance of \<open>d\<close> from the epoch less
  \<open>utcoffset\<close>. The rounding of the quotient to binary64 is left out; the examples use
  whole seconds.
\<close>

fun posix_timestamp :: "int \<Rightarrow> datetime \<Rightarrow> error + pyfloat" where
  "posix_timestamp utcoffset (Datetime us) =
     Inr (Finite (of_int (us - utcoffset * 1000000) / 1000000))"

text \<open>The proleptic Gregorian calendar, by days from 1970-01-01.\<close>

definition civil_from_days :: "int \<Rightarrow> int \<times> int \<times> int" where
  "civil_from_days z =
     (let z1 = z + 719468;
          era = z1 div 146097;
          doe = z1 - era * 146097;
          yoe = (doe - doe div 1460 + doe div 36524 - doe div 146096) div 365;
          doy = doe - (365 * yoe + yoe div 4 - yoe div 100);
          mp = (5 * doy + 2) div 153;
          d = doy - (153 * mp + 2) div 5 + 1;
          m = (if mp < 10 then mp + 3 else mp - 9);
          y = yoe + era * 400 + (if m \<le> 2 then 1 else 0)
      in (y, m, d))"

definition days_from_civil :: "int \<Rightarrow> int \<Rightarrow> int \<Rightarrow> int" where
  "days_from_civil y m d =
     (let y1 = y - (if m \<le> 2 then 1 else 0);
          era = y1 div 400;
          yoe = y1 - era * 400;
          doy = (153 * (if 2 < m then m - 3 else m + 9) + 2) div 5 + d - 1;
          doe = yoe * 365 + yoe div 4 - yoe div 100 + doy
      in era * 146097 + doe - 719468)"

fun digits :: "nat \<Rightarrow> int \<Rightarrow> string" where
  "digits 0 n = []"
| "digits (Suc k) n = digits k (n div 10) @ [char_of (48 + n mod 10)]"

definition is_digit :: "char \<Rightarrow> bool" where
  "is_digit ch = (48 \<le> (of_char ch :: int) \<and> (of_char ch :: int) \<le> 57)"

definition number :: "string \<Rightarrow> int option" where
  "number s =
     (if s \<noteq> [] \<and> list_all is_digit s
      then Some (foldl (\<lambda>n ch. 10 * n + (of_char ch - 48)) 0 s) else None)"

text \<open>\<^verbatim>\<open>d.isoformat()\<close>: \<^verbatim>\<open>YYYY-MM-DDTHH:MM:SS\<close>, then \<^verbatim>\<open>.ffffff\<close> unless it is zero.\<close>

fun posix_isoformat :: "datetime \<Rightarrow> string" where
  "posix_isoformat (Datetime us) =
     (let days = us div 86400000000;
          rest = us mod 86400000000;
          ymd = civil_from_days days;
          sec = rest div 1000000;
          micro = rest mod 1000000
      in digits 4 (fst ymd) @ ''-'' @ digits 2 (fst (snd ymd)) @ ''-''
         @ digits 2 (snd (snd ymd)) @ ''T'' @ digits 2 (sec div 3600) @ '':''
         @ digits 2 (sec div 60 mod 60) @ '':'' @ digits 2 (sec mod 60)
         @ (if micro = 0 then [] else ''.'' @ digits 6 micro))"

text \<open>
  \<^verbatim>\<open>datetime.fromisoformat\<close> on the two layouts that \<^verbatim>\<open>isoformat\<close> writes for a naive
  \<^verbatim>\<open>datetime\<close>; every other string is answered \<^verbatim>\<open>ValueError\<close> here, and an argument
  that is not a string \<^verbatim>\<open>TypeError\<close>.
\<close>

definition iso_fields :: "string \<Rightarrow> int list option" where
  "iso_fields s =
     (if (length s = 19 \<or> length s = 26 \<and> s ! 19 = CHR ''.'')
         \<and> s ! 4 = CHR ''-'' \<and> s ! 7 = CHR ''-'' \<and> s ! 13 = CHR '':'' \<and> s ! 16 = CHR '':''
      then
        those [number (take 4 s), number (take 2 (drop 5 s)), number (take 2 (drop 8 s)),
               number (take 2 (drop 11 s)), number (take 2 (drop 14 s)),
               number (take 2 (drop 17 s)),
               if length s = 19 then Some 0 else number (drop 20 s)]
      else None)"

definition datetime_of_fields :: "int list \<Rightarrow> error + datetime" where
  "datetime_of_fields xs =
     (let y = xs ! 0; m = xs ! 1; d = xs ! 2; h = xs ! 3; mi = xs ! 4; sec = xs ! 5; us = xs ! 6;
          days = days_from_civil y m d
      in if 1 \<le> y \<and> 1 \<le> m \<and> m \<le> 12 \<and> 1 \<le> d
            \<and> civil_from_days days = (y, m, d)
            \<and> h < 24 \<and> mi < 60 \<and> sec < 60
         then Inr (Datetime (days * 86400000000 + ((h * 60 + mi) * 60 + sec) * 1000000 + us))
         else Inl ValueError)"

fun posix_fromisoformat :: "pyval \<Rightarrow> error + datetime" where
  "posix_fromisoformat (PStr s) =
     (case iso_fields s of None \<Rightarrow> Inl ValueError | Some xs \<Rightarrow> datetime_of_fields xs)"
| "posix_fromisoformat v = Inl TypeError"

text \<open>
  \<^verbatim>\<open>float(x)\<close> and \<^verbatim>\<open>int(x)\<close>. Of the strings only the plain decimal numerals are read;
  an integer is taken to its own value as a float (exact below \<open>2 ^ 53\<close>).
\<close>

fun posix_float :: "pyval \<Rightarrow> error + pyfloat" where
  "posix_float (PFloat f) = Inr f"
| "posix_float (PInt n) = Inr (Finite (of_int n))"
| "posix_float (PBool b) = Inr (Finite (if b then 1 else 0))"
| "posix_float (PStr s) =
     (case number s of None \<Rightarrow> Inl ValueError | Some n \<Rightarrow> Inr (Finite (of_int n)))"
| "posix_float v = Inl TypeError"

fun posix_int :: "pyval \<Rightarrow> error + int" where
  "posix_int (PInt n) = Inr n"
| "posix_int (PBool b) = Inr (if b then 1 else 0)"
| "posix_int (PFloat (Finite q)) = Inr (if 0 \<le> q then \<lfloor>q\<rfloor> else \<lceil>q\<rceil>)"
| "posix_int (PFloat NaN) = Inl ValueError"
| "posix_int (PFloat f) = Inl OverflowError"
| "posix_int (PStr s) = (case number s of None \<Rightarrow> Inl ValueError | Some n \<Rightarrow> Inr n)"
| "posix_int (PUUID (UUID n)) = Inr n"
| "posix_int v = Inl TypeError"

text \<open>
  \<^verbatim>\<open>uuid.UUID(x)\<close> on a string of 32 hexadecimal digits with hyphens between them, and
  \<^verbatim>\<open>str(u)\<close>. An argument that is not a string has no usable \<^verbatim>\<open>replace\<close> method.
\<close>

definition hex_value :: "char \<Rightarrow> int option" where
  "hex_value ch =
     (let n = of_char ch :: int in
      if 48 \<le> n \<and> n \<le> 57 then Some (n - 48)
      else if 97 \<le> n \<and> n \<le> 102 then Some (n - 87)
      else if 65 \<le> n \<and> n \<le> 70 then Some (n - 55)
      else None)"

fun posix_uuid :: "pyval \<Rightarrow> error + uuid" where
  "posix_uuid (PStr s) =
     (let hex = filter (\<lambda>ch. ch \<noteq> CHR ''-'') s in
      if length hex \<noteq> 32 then Inl ValueError
      else (case those (map hex_value hex) of
              None \<Rightarrow> Inl ValueError
            | Some ds \<Rightarrow> Inr (UUID (foldl (\<lambda>n d. 16 * n + d) 0 ds))))"
| "posix_uuid (PDatetime d) = Inl TypeError"
| "posix_uuid v = Inl AttributeError"

fun hex_digits :: "nat \<Rightarrow> int \<Rightarrow> string" where
  "hex_digits 0 n = []"
| "hex_digits (Suc k) n =
     hex_digits k (n div 16)
     @ [if n mod 16 < 10 then char_of (48 + n mod 16) else char_of (87 + n mod 16)]"

fun posix_uuid_str :: "uuid \<Rightarrow> string" where
  "posix_uuid_str (UUID n) =
     (let hex = hex_digits 32 n in
      take 8 hex @ ''-'' @ take 4 (drop 8 hex) @ ''-'' @ take 4 (drop 12 hex) @ ''-''
      @ take 4 (drop 16 hex) @ ''-'' @ drop 20 hex)"

text \<open>
  The environment of the examples: project \<^verbatim>\<open>dead-hosts/example-list\<close>, the clock at
  2023-11-14T22:13:20 UTC. \<^verbatim>\<open>DictHelper.flatten\<close> returns a dictionary without nested
  dictionaries and without an empty key as it is; the examples hold no other.
\<close>

definition posix_env :: "int \<Rightarrow> env" where
  "posix_env utcoffset =
     \<lparr>GIT_BASE_NAME = ''example-list'',
      GIT_REPO_OWNER = ''dead-hosts'',
      utcnow = Datetime 1700000000000000,
      utcfromtimestamp = posix_utcfromtimestamp,
      fromisoformat = posix_fromisoformat,
      timestamp = posix_timestamp utcoffset,
      isoformat = posix_isoformat,
      py_float = posix_float,
      py_int = posix_int,
      uuid_UUID = posix_uuid,
      uuid_str = posix_uuid_str,
      flatten = (\<lambda>d. d)\<rparr>"

definition windows_env :: env where
  "windows_env = (posix_env 0)\<lparr>utcfromtimestamp := windows_utcfromtimestamp\<rparr>"

text \<open>The fields that \<^verbatim>\<open>update\<close> may write.\<close>

definition update_indexes :: "string list" where
  "update_indexes =
     [''name'', ''ping'', ''raw_link'', ''custom_pyfunceble_config'', ''repo'',
      ''platform_container_name'']
     @ bool_indexes @ float_indexes @ timestamp_indexes @ datetime_indexes @ uuid_indexes"

section \<open>Properties\<close>

subsection \<open>Control flow and loops\<close>

lemma and_then_Inr: "and_then m f = Inr y \<longleftrightarrow> (\<exists>x. m = Inr x \<and> f x = Inr y)"
  by (cases m) (simp_all add: and_then_def)

lemma and_then_simps:
  "and_then (Inr x) f = f x" "and_then (Inl e) f = Inl e"
  by (simp_all add: and_then_def)

text \<open>
  A loop whose body writes no field but the one it is called for leaves every field
  outside its list alone, and the value it leaves in a field of its list is the one its
  body wrote there.
\<close>

lemma for_each_frame:
  assumes frame: "\<And>k c c'. body k c = Inr c' \<Longrightarrow> j \<noteq> k \<Longrightarrow> map_of c' j = map_of c j"
  shows "for_each ks body c = Inr c' \<Longrightarrow> j \<notin> set ks \<Longrightarrow> map_of c' j = map_of c j"
proof (induction ks arbitrary: c)
  case Nil
  then show ?case by simp
next
  case (Cons k ks)
  from Cons.prems(1) obtain c1 where step: "body k c = Inr c1" and rest: "for_each ks body c1 = Inr c'"
    by (auto split: sum.splits)
  from Cons.prems(2) have "j \<noteq> k" "j \<notin> set ks" by auto
  with frame [OF step] Cons.IH [OF rest] show ?case by simp
qed

lemma for_each_at:
  assumes frame: "\<And>k c c' j. body k c = Inr c' \<Longrightarrow> j \<noteq> k \<Longrightarrow> map_of c' j = map_of c j"
  shows "for_each ks body c = Inr c' \<Longrightarrow> k \<in> set ks \<Longrightarrow> distinct ks \<Longrightarrow>
         \<exists>c1 c2. body k c1 = Inr c2 \<and> map_of c1 k = map_of c k \<and> map_of c2 k = map_of c' k"
proof (induction ks arbitrary: c)
  case Nil
  then show ?case by simp
next
  case (Cons x ks)
  from Cons.prems(1) obtain s where step: "body x c = Inr s" and rest: "for_each ks body s = Inr c'"
    by (auto split: sum.splits)
  show ?case
  proof (cases "k = x")
    case True
    with Cons.prems(3) have "k \<notin> set ks" by simp
    then have "map_of c' k = map_of s k"
      using for_each_frame [of body k ks s c'] frame rest by blast
    with step True show ?thesis by auto
  next
    case False
    with Cons.prems have "k \<in> set ks" "distinct ks" by auto
    from Cons.IH [OF rest this] obtain c1 c2 where
      "body k c1 = Inr c2" "map_of c1 k = map_of s k" "map_of c2 k = map_of c' k" by blast
    moreover have "map_of s k = map_of c k" using frame [OF step False] .
    ultimately show ?thesis by auto
  qed
qed

subsection \<open>\<^verbatim>\<open>get_ping_for_commit\<close>\<close>

lemma collect_join_item: "collect join_item (map PStr names) = Inr names"
  by (induction names) simp_all

lemma join_value_strings: "join_value sep (PList (map PStr names)) = Inr (join sep names)"
  by (simp add: join_value_def and_then_def collect_join_item)

text \<open>
  What \<^verbatim>\<open>join\<close> builds from a non-empty list: the first string, then each further string
  with the separator in front of it.
\<close>

lemma join_concat: "join sep (n # ns) = n @ concat (map ((@) sep) ns)"
  by (induction ns arbitrary: n) simp_all

text \<open>
  Claim C8. \<^verbatim>\<open>get_ping_for_commit\<close> returns the \<^verbatim>\<open>ping\<close> entries joined by single spaces
  (the first entry, then every further entry with one space in front of it) when
  \<^verbatim>\<open>ping_enabled\<close> is \<^verbatim>\<open>True\<close> and \<^verbatim>\<open>ping\<close> is a non-empty list of strings, and the
  empty string otherwise: whenever \<^verbatim>\<open>ping_enabled\<close> is \<^verbatim>\<open>False\<close>, whatever \<^verbatim>\<open>ping\<close> holds,
  and whenever \<^verbatim>\<open>ping_enabled\<close> is not \<^verbatim>\<open>True\<close> or \<^verbatim>\<open>ping\<close> is absent or empty. With
  \<^verbatim>\<open>ping_enabled = True\<close> and \<^verbatim>\<open>ping = ["@alice", "@bob"]\<close> the text is \<^verbatim>\<open>"@alice @bob"\<close>.
\<close>

theorem get_ping_for_commit_text:
  "(map_of c ''ping_enabled'' = Some (PBool True)
      \<and> map_of c ''ping'' = Some (PList (map PStr (n # ns)))
      \<longrightarrow> get_ping_for_commit c = Inr (n @ concat (map ((@) '' '') ns)))
   \<and> (map_of c ''ping_enabled'' = Some (PBool False) \<longrightarrow> get_ping_for_commit c = Inr '''')
   \<and> (map_of c ''ping_enabled'' \<noteq> Some (PBool True) \<or> map_of c ''ping'' = None
        \<or> (\<exists>p. map_of c ''ping'' = Some p \<and> \<not> truthy p) \<longrightarrow> get_ping_for_commit c = Inr '''')"
proof -
  have "get_ping_for_commit c = Inr (n @ concat (map ((@) '' '') ns))"
    if "map_of c ''ping_enabled'' = Some (PBool True)"
      and "map_of c ''ping'' = Some (PList (map PStr (n # ns)))"
    using that join_value_strings [of "'' ''" "n # ns"]
    by (simp add: get_ping_for_commit_def join_concat)
  moreover have "get_ping_for_commit c = Inr ''''"
    if "map_of c ''ping_enabled'' \<noteq> Some (PBool True) \<or> map_of c ''ping'' = None
        \<or> (\<exists>p. map_of c ''ping'' = Some p \<and> \<not> truthy p)"
    using that by (auto simp: get_ping_for_commit_def split: option.splits)
  ultimately show ?thesis by auto
qed

theorem get_ping_for_commit_text_witness:
  "get_ping_for_commit [(''ping_enabled'', PBool True), (''ping'', PList [PStr ''@alice'', PStr ''@bob''])]
     = Inr ''@alice @bob''
   \<and> get_ping_for_commit
         [(''ping_enabled'', PBool True),
          (''ping'', PList [PStr ''@alice'', PStr ''@bob'', PStr ''@carol''])]
     = Inr ''@alice @bob @carol''
   \<and> get_ping_for_commit [(''ping_enabled'', PBool True), (''ping'', PList [PStr ''@alice''])]
     = Inr ''@alice''
   \<and> get_ping_for_commit [(''ping_enabled'', PBool False), (''ping'', PList [PStr ''@alice'', PStr ''@bob''])]
     = Inr ''''
   \<and> get_ping_for_commit [(''ping_enabled'', PBool True), (''ping'', PList [])] = Inr ''''"
  using get_ping_for_commit_text
          [of "[(''ping_enabled'', PBool True), (''ping'', PList [PStr ''@alice'', PStr ''@bob''])]"
              "''@alice''" "[''@bob'']"]
        get_ping_for_commit_text
          [of "[(''ping_enabled'', PBool True),
                (''ping'', PList [PStr ''@alice'', PStr ''@bob'', PStr ''@carol''])]"
              "''@alice''" "[''@bob'', ''@carol'']"]
        get_ping_for_commit_text
          [of "[(''ping_enabled'', PBool True), (''ping'', PList [PStr ''@alice''])]"
              "''@alice''" "[]"]
        get_ping_for_commit_text
          [of "[(''ping_enabled'', PBool False), (''ping'', PList [PStr ''@alice'', PStr ''@bob''])]"
              "[]" "[]"]
        get_ping_for_commit_text [of "[(''ping_enabled'', PBool True), (''ping'', PList [])]" "[]" "[]"]
  by simp

text \<open>
  Claim C10. \<^verbatim>\<open>get_ping_for_commit\<close> returns the empty string whenever the key
  \<^verbatim>\<open>ping_enabled\<close> or the key \<^verbatim>\<open>ping\<close> is absent from the record, and whenever
  \<^verbatim>\<open>ping_enabled\<close> holds a value other than the boolean \<^verbatim>\<open>True\<close>, a true one such as the
  integer 1 included.
\<close>

theorem get_ping_for_commit_absent_or_not_True:
  "(map_of c ''ping_enabled'' = None \<or> map_of c ''ping'' = None \<longrightarrow> get_ping_for_commit c = Inr '''')
   \<and> (map_of c ''ping_enabled'' = Some v \<and> v \<noteq> PBool True \<longrightarrow> get_ping_for_commit c = Inr '''')"
  by (auto simp: get_ping_for_commit_def split: option.splits)

theorem get_ping_for_commit_absent_or_not_True_witness:
  "truthy (PInt 1) \<and> PInt 1 \<noteq> PBool True
   \<and> get_ping_for_commit [(''ping_enabled'', PInt 1), (''ping'', PList [PStr ''@alice''])] = Inr ''''
   \<and> get_ping_for_commit [(''ping'', PList [PStr ''@alice''])] = Inr ''''
   \<and> get_ping_for_commit [(''ping_enabled'', PBool True)] = Inr ''''"
  using get_ping_for_commit_absent_or_not_True
          [of "[(''ping_enabled'', PInt 1), (''ping'', PList [PStr ''@alice''])]" "PInt 1"]
        get_ping_for_commit_absent_or_not_True [of "[(''ping'', PList [PStr ''@alice''])]" "PNone"]
        get_ping_for_commit_absent_or_not_True [of "[(''ping_enabled'', PBool True)]" "PNone"]
  by simp

subsection \<open>The stages of \<^verbatim>\<open>update\<close>\<close>

lemma update_ping_frame:
  "update_ping c = Inr c' \<Longrightarrow> j \<noteq> ''ping'' \<Longrightarrow> map_of c' j = map_of c j"
  by (auto simp: update_ping_def and_then_Inr update_conv' split: option.splits)

lemma update_raw_link_frame:
  "j \<noteq> ''raw_link'' \<Longrightarrow> map_of (update_raw_link c) j = map_of c j"
  by (auto simp: update_raw_link_def update_conv' split: option.splits)

lemma update_custom_config_frame:
  "j \<noteq> ''custom_pyfunceble_config'' \<Longrightarrow> map_of (update_custom_config env c) j = map_of c j"
  by (auto simp: update_custom_config_def Let_def update_conv' split: option.splits pyval.splits)

lemma coerce_bool_frame:
  "coerce_bool env k c = Inr c' \<Longrightarrow> j \<noteq> k \<Longrightarrow> map_of c' j = map_of c j"
  by (auto simp: coerce_bool_def and_then_Inr update_conv' split: option.splits if_splits)

lemma coerce_float_frame:
  "coerce_float env k c = Inr c' \<Longrightarrow> j \<noteq> k \<Longrightarrow> map_of c' j = map_of c j"
  by (auto simp: coerce_float_def and_then_Inr update_conv' split: option.splits if_splits)

lemma convert_timestamp_frame:
  "convert_timestamp env e k c = Inr c' \<Longrightarrow> j \<noteq> k \<Longrightarrow> map_of c' j = map_of c j"
  by (auto simp: convert_timestamp_def and_then_Inr update_conv' split: option.splits if_splits)

lemma convert_datetime_frame:
  "convert_datetime env e k c = Inr c' \<Longrightarrow> j \<noteq> k \<Longrightarrow> map_of c' j = map_of c j"
  by (auto simp: convert_datetime_def and_then_Inr update_conv' split: option.splits if_splits)

lemma convert_uuid_frame:
  "convert_uuid env k c = Inr c' \<Longrightarrow> j \<noteq> k \<Longrightarrow> map_of c' j = map_of c j"
  by (auto simp: convert_uuid_def and_then_Inr update_conv' split: option.splits if_splits)

lemma update_container_name_frame:
  "update_container_name c = Inr c' \<Longrightarrow> j \<noteq> ''platform_container_name'' \<Longrightarrow>
   map_of c' j = map_of c j"
  by (auto simp: update_container_name_def update_conv' split: option.splits pyval.splits)

lemma update_stages:
  assumes "update env c0 = Inr c'"
  obtains c2 c5 c6 epoch_dt c7 c8 c9 where
    "update_ping (AList.update ''name'' (PStr (GIT_BASE_NAME env)) c0) = Inr c2"
    "for_each bool_indexes (coerce_bool env) (update_custom_config env (update_raw_link c2)) = Inr c5"
    "for_each float_indexes (coerce_float env) c5 = Inr c6"
    "utcfromtimestamp env (PInt 0) = Inr epoch_dt"
    "for_each timestamp_indexes (convert_timestamp env epoch_dt) c6 = Inr c7"
    "for_each datetime_indexes (convert_datetime env epoch_dt) c7 = Inr c8"
    "for_each uuid_indexes (convert_uuid env) c8 = Inr c9"
    "update_container_name (AList.update ''repo'' (PStr (repo_name env)) c9) = Inr c'"
  using assms unfolding update_def Let_def and_then_Inr by blast


lemma bool_loop_frame:
  "for_each ks (coerce_bool env) c = Inr c' \<Longrightarrow> j \<notin> set ks \<Longrightarrow> map_of c' j = map_of c j"
  using for_each_frame [of "coerce_bool env" j ks c c'] coerce_bool_frame by blast

lemma float_loop_frame:
  "for_each ks (coerce_float env) c = Inr c' \<Longrightarrow> j \<notin> set ks \<Longrightarrow> map_of c' j = map_of c j"
  using for_each_frame [of "coerce_float env" j ks c c'] coerce_float_frame by blast

lemma timestamp_loop_frame:
  "for_each ks (convert_timestamp env e) c = Inr c' \<Longrightarrow> j \<notin> set ks \<Longrightarrow> map_of c' j = map_of c j"
  using for_each_frame [of "convert_timestamp env e" j ks c c'] convert_timestamp_frame by blast

lemma datetime_loop_frame:
  "for_each ks (convert_datetime env e) c = Inr c' \<Longrightarrow> j \<notin> set ks \<Longrightarrow> map_of c' j = map_of c j"
  using for_each_frame [of "convert_datetime env e" j ks c c'] convert_datetime_frame by blast

lemma uuid_loop_frame:
  "for_each ks (convert_uuid env) c = Inr c' \<Longrightarrow> j \<notin> set ks \<Longrightarrow> map_of c' j = map_of c j"
  using for_each_frame [of "convert_uuid env" j ks c c'] convert_uuid_frame by blast

lemma update_frame:
  assumes "update env c = Inr c'" and "j \<notin> set update_indexes"
  shows "map_of c' j = map_of c j"
proof -
  from assms(1) obtain c2 c5 c6 epoch_dt c7 c8 c9 where
    s2: "update_ping (AList.update ''name'' (PStr (GIT_BASE_NAME env)) c) = Inr c2" and
    s5: "for_each bool_indexes (coerce_bool env) (update_custom_config env (update_raw_link c2)) = Inr c5" and
    s6: "for_each float_indexes (coerce_float env) c5 = Inr c6" and
    s7: "for_each timestamp_indexes (convert_timestamp env epoch_dt) c6 = Inr c7" and
    s8: "for_each datetime_indexes (convert_datetime env epoch_dt) c7 = Inr c8" and
    s9: "for_each uuid_indexes (convert_uuid env) c8 = Inr c9" and
    s10: "update_container_name (AList.update ''repo'' (PStr (repo_name env)) c9) = Inr c'"
    by (rule update_stages)
  from assms(2) have j: "j \<noteq> ''name''" "j \<noteq> ''ping''" "j \<noteq> ''raw_link''"
    "j \<noteq> ''custom_pyfunceble_config''" "j \<noteq> ''repo''" "j \<noteq> ''platform_container_name''"
    "j \<notin> set bool_indexes" "j \<notin> set float_indexes" "j \<notin> set timestamp_indexes"
    "j \<notin> set datetime_indexes" "j \<notin> set uuid_indexes"
    by (auto simp: update_indexes_def)
  have "map_of c2 j = map_of c j"
    using update_ping_frame [OF s2 j(2)] j(1) by (simp add: update_conv')
  moreover have "map_of c5 j = map_of c2 j"
    using bool_loop_frame [OF s5 j(7)] j(3,4)
    by (simp add: update_custom_config_frame update_raw_link_frame)
  moreover have "map_of c6 j = map_of c5 j" by (rule float_loop_frame [OF s6 j(8)])
  moreover have "map_of c7 j = map_of c6 j" by (rule timestamp_loop_frame [OF s7 j(9)])
  moreover have "map_of c8 j = map_of c7 j" by (rule datetime_loop_frame [OF s8 j(10)])
  moreover have "map_of c9 j = map_of c8 j" by (rule uuid_loop_frame [OF s9 j(11)])
  moreover have "map_of c' j = map_of c9 j"
    using update_container_name_frame [OF s10 j(6)] j(5) by (simp add: update_conv')
  ultimately show ?thesis by simp
qed

lemma update_name_repo:
  assumes "update env c = Inr c'"
  shows "map_of c' ''name'' = Some (PStr (GIT_BASE_NAME env))"
    and "map_of c' ''repo'' = Some (PStr (repo_name env))"
    and "map_of c' ''platform_container_name'' = Some (PStr (container_name (GIT_BASE_NAME env)))"
proof -
  from assms(1) obtain c2 c5 c6 epoch_dt c7 c8 c9 where
    s2: "update_ping (AList.update ''name'' (PStr (GIT_BASE_NAME env)) c) = Inr c2" and
    s5: "for_each bool_indexes (coerce_bool env) (update_custom_config env (update_raw_link c2)) = Inr c5" and
    s6: "for_each float_indexes (coerce_float env) c5 = Inr c6" and
    s7: "for_each timestamp_indexes (convert_timestamp env epoch_dt) c6 = Inr c7" and
    s8: "for_each datetime_indexes (convert_datetime env epoch_dt) c7 = Inr c8" and
    s9: "for_each uuid_indexes (convert_uuid env) c8 = Inr c9" and
    s10: "update_container_name (AList.update ''repo'' (PStr (repo_name env)) c9) = Inr c'"
    by (rule update_stages)
  have "map_of c2 ''name'' = Some (PStr (GIT_BASE_NAME env))"
    using update_ping_frame [OF s2, of "''name''"] by (simp add: update_conv')
  moreover have "map_of c5 ''name'' = map_of c2 ''name''"
    using bool_loop_frame [OF s5, of "''name''"]
    by (simp add: bool_indexes_def update_custom_config_frame update_raw_link_frame)
  moreover have "map_of c6 ''name'' = map_of c5 ''name''"
    using float_loop_frame [OF s6, of "''name''"] by (simp add: float_indexes_def)
  moreover have "map_of c7 ''name'' = map_of c6 ''name''"
    using timestamp_loop_frame [OF s7, of "''name''"] by (simp add: timestamp_indexes_def)
  moreover have "map_of c8 ''name'' = map_of c7 ''name''"
    using datetime_loop_frame [OF s8, of "''name''"] by (simp add: datetime_indexes_def)
  moreover have "map_of c9 ''name'' = map_of c8 ''name''"
    using uuid_loop_frame [OF s9, of "''name''"] by (simp add: uuid_indexes_def)
  ultimately have name9: "map_of c9 ''name'' = Some (PStr (GIT_BASE_NAME env))" by simp
  then have c': "c' = AList.update ''platform_container_name''
                   (PStr (container_name (GIT_BASE_NAME env)))
                   (AList.update ''repo'' (PStr (repo_name env)) c9)"
    using s10 by (simp add: update_container_name_def update_conv')
  show "map_of c' ''name'' = Some (PStr (GIT_BASE_NAME env))"
    using name9 by (simp add: c' update_conv')
  show "map_of c' ''repo'' = Some (PStr (repo_name env))"
    by (simp add: c' update_conv')
  show "map_of c' ''platform_container_name'' = Some (PStr (container_name (GIT_BASE_NAME env)))"
    by (simp add: c' update_conv')
qed

text \<open>
  Claim C7. After every run of \<^verbatim>\<open>update\<close> that returns, the field \<^verbatim>\<open>repo\<close> is the string
  \<^verbatim>\<open>{owner}/{name}\<close> of the project identity, whatever the loaded record held there.
\<close>

theorem update_repo:
  "update env c = Inr c' \<Longrightarrow>
   map_of c' ''repo'' = Some (PStr (GIT_REPO_OWNER env @ ''/'' @ GIT_BASE_NAME env))"
  using update_name_repo(2) [of env c c'] by (simp add: repo_name_def)

theorem update_repo_witness:
  "update (posix_env 0) [(''repo'', PStr ''someone/else'')]
     = Inr [(''repo'', PStr ''dead-hosts/example-list''), (''name'', PStr ''example-list''),
            (''platform_container_name'', PStr ''example-list'')]
   \<and> map_of [(''repo'', PStr ''dead-hosts/example-list''), (''name'', PStr ''example-list''),
              (''platform_container_name'', PStr ''example-list'')] ''repo''
     = Some (PStr ''dead-hosts/example-list'')"
proof -
  have run: "update (posix_env 0) [(''repo'', PStr ''someone/else'')]
     = Inr [(''repo'', PStr ''dead-hosts/example-list''), (''name'', PStr ''example-list''),
            (''platform_container_name'', PStr ''example-list'')]"
    by code_simp
  from update_repo [OF run] run show ?thesis by simp
qed

subsection \<open>\<^verbatim>\<open>platform_container_name\<close>\<close>

lemma replace_remove: "replace old [] s = filter (\<lambda>ch. ch \<noteq> old) s"
  by (induction s) (simp_all add: replace_def)

lemma replace_char: "replace old [new] s = map (\<lambda>ch. if ch = old then new else ch) s"
  by (induction s) (simp_all add: replace_def)

lemma container_name_chars:
  "map (\<lambda>ch. if ch = CHR ''.'' then CHR ''-'' else ch)
     (filter (\<lambda>ch. ch \<noteq> CHR '')'')
       (filter (\<lambda>ch. ch \<noteq> CHR ''('')
         (filter (\<lambda>ch. ch \<noteq> CHR '']'')
           (filter (\<lambda>ch. ch \<noteq> CHR ''['')
             (map (\<lambda>ch. if ch = CHR '' '' then CHR ''-'' else ch) s)))))
   = map (\<lambda>ch. if ch = CHR '' '' \<or> ch = CHR ''.'' then CHR ''-'' else ch)
       (filter (\<lambda>ch. ch \<notin> set ''[]()'') s)"
  by (induction s) auto

lemma container_name_hyphenated: "container_name name = hyphenated_container_name name"
  unfolding container_name_def hyphenated_container_name_def
  using container_name_chars [of "lower name"]
  by (simp add: replace_remove replace_char del: set_simps)


text \<open>
  Claim C3, as amended. After \<^verbatim>\<open>update\<close> the field \<^verbatim>\<open>name\<close> is the project's base name and
  \<^verbatim>\<open>platform_container_name\<close> is that name in lower case, with every space and every dot
  replaced by a hyphen, the characters \<^verbatim>\<open>[ ] ( )\<close> removed, cut to 128 characters.
\<close>

theorem update_container_name_hyphenated:
  "update env c = Inr c' \<Longrightarrow>
   map_of c' ''name'' = Some (PStr (GIT_BASE_NAME env))
   \<and> map_of c' ''platform_container_name''
       = Some (PStr (hyphenated_container_name (GIT_BASE_NAME env)))"
  using update_name_repo(1,3) [of env c c'] by (simp add: container_name_hyphenated)

text \<open>
  Claim C3 as stated fails: for the name \<^verbatim>\<open>My [Cool] List.txt\<close> the code yields
  \<^verbatim>\<open>my-cool-list-txt\<close>; with the dot removed the result would be \<^verbatim>\<open>my-cool-listtxt\<close>.
\<close>

theorem update_container_name_counterexample:
  "field ''platform_container_name''
     (update ((posix_env 0)\<lparr>GIT_BASE_NAME := ''My [Cool] List.txt''\<rparr>) [])
     = Inr (Some (PStr ''my-cool-list-txt''))
   \<and> spec_container_name ''My [Cool] List.txt'' = ''my-cool-listtxt''
   \<and> ''my-cool-list-txt'' \<noteq> ''my-cool-listtxt''"
  by code_simp

theorem update_container_name_hyphenated_witness:
  "update ((posix_env 0)\<lparr>GIT_BASE_NAME := ''My [Cool] List.txt''\<rparr>) []
     = Inr [(''name'', PStr ''My [Cool] List.txt''),
            (''repo'', PStr ''dead-hosts/My [Cool] List.txt''),
            (''platform_container_name'', PStr ''my-cool-list-txt'')]
   \<and> hyphenated_container_name ''My [Cool] List.txt'' = ''my-cool-list-txt''"
proof -
  have run: "update ((posix_env 0)\<lparr>GIT_BASE_NAME := ''My [Cool] List.txt''\<rparr>) []
     = Inr [(''name'', PStr ''My [Cool] List.txt''),
            (''repo'', PStr ''dead-hosts/My [Cool] List.txt''),
            (''platform_container_name'', PStr ''my-cool-list-txt'')]"
    by code_simp
  from update_container_name_hyphenated [OF run] run show ?thesis
    by (simp add: posix_env_def)
qed


lemma update_stages_frames:
  assumes "update env c = Inr c'"
  obtains c2 c5 c6 epoch_dt c7 c8 c9 where
    "update_ping (AList.update ''name'' (PStr (GIT_BASE_NAME env)) c) = Inr c2"
    "for_each float_indexes (coerce_float env) c5 = Inr c6"
    "utcfromtimestamp env (PInt 0) = Inr epoch_dt"
    "for_each timestamp_indexes (convert_timestamp env epoch_dt) c6 = Inr c7"
    "for_each datetime_indexes (convert_datetime env epoch_dt) c7 = Inr c8"
    "for_each uuid_indexes (convert_uuid env) c8 = Inr c9"
    "\<And>j. j \<noteq> ''raw_link'' \<Longrightarrow> j \<noteq> ''custom_pyfunceble_config'' \<Longrightarrow> j \<notin> set bool_indexes \<Longrightarrow>
       map_of c5 j = map_of c2 j"
    "\<And>j. j \<notin> set float_indexes \<Longrightarrow> map_of c6 j = map_of c5 j"
    "\<And>j. j \<notin> set timestamp_indexes \<Longrightarrow> map_of c7 j = map_of c6 j"
    "\<And>j. j \<notin> set datetime_indexes \<Longrightarrow> map_of c8 j = map_of c7 j"
    "\<And>j. j \<notin> set uuid_indexes \<Longrightarrow> map_of c9 j = map_of c8 j"
    "\<And>j. j \<noteq> ''repo'' \<Longrightarrow> j \<noteq> ''platform_container_name'' \<Longrightarrow> map_of c' j = map_of c9 j"
proof -
  from assms(1) obtain c2 c5 c6 epoch_dt c7 c8 c9 where
    s2: "update_ping (AList.update ''name'' (PStr (GIT_BASE_NAME env)) c) = Inr c2" and
    s5: "for_each bool_indexes (coerce_bool env) (update_custom_config env (update_raw_link c2)) = Inr c5" and
    s6: "for_each float_indexes (coerce_float env) c5 = Inr c6" and
    e: "utcfromtimestamp env (PInt 0) = Inr epoch_dt" and
    s7: "for_each timestamp_indexes (convert_timestamp env epoch_dt) c6 = Inr c7" and
    s8: "for_each datetime_indexes (convert_datetime env epoch_dt) c7 = Inr c8" and
    s9: "for_each uuid_indexes (convert_uuid env) c8 = Inr c9" and
    s10: "update_container_name (AList.update ''repo'' (PStr (repo_name env)) c9) = Inr c'"
    by (rule update_stages)
  have f5: "map_of c5 j = map_of c2 j"
    if "j \<noteq> ''raw_link''" "j \<noteq> ''custom_pyfunceble_config''" "j \<notin> set bool_indexes" for j
    using bool_loop_frame [OF s5 that(3)] that(1,2)
    by (simp add: update_custom_config_frame update_raw_link_frame)
  have f10: "map_of c' j = map_of c9 j" if "j \<noteq> ''repo''" "j \<noteq> ''platform_container_name''" for j
    using update_container_name_frame [OF s10 that(2)] that(1) by (simp add: update_conv')
  show thesis
    using that [OF s2 s6 e s7 s8 s9 f5 float_loop_frame [OF s6] timestamp_loop_frame [OF s7]
                datetime_loop_frame [OF s8] uuid_loop_frame [OF s9] f10]
    by blast
qed

subsection \<open>\<^verbatim>\<open>ping\<close>\<close>

lemma collect_ping_entry:
  "collect ping_entry (map PStr names)
     = Inr (map (\<lambda>n. PStr (if startswith n ''@'' then n else ''@'' @ n)) names)"
  by (induction names) simp_all

lemma update_ping_strings:
  assumes "update_ping c = Inr c'" and "map_of c ''ping'' = Some (PList (map PStr names))"
  shows "map_of c' ''ping''
           = Some (PList (map (\<lambda>n. PStr (if startswith n ''@'' then n else ''@'' @ n)) names))"
  using assms by (auto simp: update_ping_def and_then_Inr collect_ping_entry update_conv')

lemma starts_with_one_at_prefixed:
  "\<not> startswith n ''@@'' \<Longrightarrow> starts_with_one_at (if startswith n ''@'' then n else ''@'' @ n)"
  by (cases n; cases "tl n") (auto simp: startswith_def)

text \<open>
  Claim C6, as amended. When \<^verbatim>\<open>ping\<close> holds a list of strings, \<^verbatim>\<open>update\<close> rewrites it entry
  by entry, in order: an entry that starts with \<^verbatim>\<open>@\<close> stays as it is, any other entry gets
  one \<^verbatim>\<open>@\<close> in front. Every entry of the result starts with \<^verbatim>\<open>@\<close>, and with exactly one
  \<^verbatim>\<open>@\<close> unless the entry already started with \<^verbatim>\<open>@@\<close>.
\<close>

theorem update_ping_prefixed:
  assumes "update env c = Inr c'" and "map_of c ''ping'' = Some (PList (map PStr names))"
  shows "map_of c' ''ping''
           = Some (PList (map (\<lambda>n. PStr (if startswith n ''@'' then n else ''@'' @ n)) names))
         \<and> (\<forall>n \<in> set names. startswith (if startswith n ''@'' then n else ''@'' @ n) ''@'')
         \<and> (\<forall>n \<in> set names. \<not> startswith n ''@@'' \<longrightarrow>
               starts_with_one_at (if startswith n ''@'' then n else ''@'' @ n))"
  using assms(1)
proof (rule update_stages_frames)
  fix c2 c5 c6 epoch_dt c7 c8 c9
  assume s2: "update_ping (AList.update ''name'' (PStr (GIT_BASE_NAME env)) c) = Inr c2"
    and f5: "\<And>j. j \<noteq> ''raw_link'' \<Longrightarrow> j \<noteq> ''custom_pyfunceble_config'' \<Longrightarrow> j \<notin> set bool_indexes \<Longrightarrow>
       map_of c5 j = map_of c2 j"
    and f6: "\<And>j. j \<notin> set float_indexes \<Longrightarrow> map_of c6 j = map_of c5 j"
    and f7: "\<And>j. j \<notin> set timestamp_indexes \<Longrightarrow> map_of c7 j = map_of c6 j"
    and f8: "\<And>j. j \<notin> set datetime_indexes \<Longrightarrow> map_of c8 j = map_of c7 j"
    and f9: "\<And>j. j \<notin> set uuid_indexes \<Longrightarrow> map_of c9 j = map_of c8 j"
    and f10: "\<And>j. j \<noteq> ''repo'' \<Longrightarrow> j \<noteq> ''platform_container_name'' \<Longrightarrow> map_of c' j = map_of c9 j"
  have "map_of (AList.update ''name'' (PStr (GIT_BASE_NAME env)) c) ''ping''
          = Some (PList (map PStr names))"
    using assms(2) by (simp add: update_conv')
  from update_ping_strings [OF s2 this]
  have "map_of c2 ''ping''
          = Some (PList (map (\<lambda>n. PStr (if startswith n ''@'' then n else ''@'' @ n)) names))" .
  moreover have "map_of c' ''ping'' = map_of c2 ''ping''"
    using f5 [of "''ping''"] f6 [of "''ping''"] f7 [of "''ping''"] f8 [of "''ping''"]
      f9 [of "''ping''"] f10 [of "''ping''"]
    by (simp add: bool_indexes_def float_indexes_def timestamp_indexes_def datetime_indexes_def
          uuid_indexes_def)
  ultimately show ?thesis
    by (auto simp: starts_with_one_at_prefixed) (simp add: startswith_def)
qed

theorem update_ping_prefixed_witness:
  "update (posix_env 0) [(''ping'', PList [PStr ''alice'', PStr ''@bob''])]
     = Inr [(''ping'', PList [PStr ''@alice'', PStr ''@bob'']), (''name'', PStr ''example-list''),
            (''repo'', PStr ''dead-hosts/example-list''),
            (''platform_container_name'', PStr ''example-list'')]
   \<and> starts_with_one_at ''@alice'' \<and> starts_with_one_at ''@bob''"
proof -
  have run: "update (posix_env 0) [(''ping'', PList (map PStr [''alice'', ''@bob'']))]
     = Inr [(''ping'', PList [PStr ''@alice'', PStr ''@bob'']), (''name'', PStr ''example-list''),
            (''repo'', PStr ''dead-hosts/example-list''),
            (''platform_container_name'', PStr ''example-list'')]"
    by code_simp
  have "map_of [(''ping'', PList (map PStr [''alice'', ''@bob'']))] ''ping''
          = Some (PList (map PStr [''alice'', ''@bob'']))"
    by simp
  from update_ping_prefixed [OF run this] run show ?thesis
    by (simp add: startswith_def)
qed

text \<open>
  Claim C6 as stated fails: the entry \<^verbatim>\<open>@@bob\<close> starts with \<^verbatim>\<open>@\<close>, passes unchanged, and
  the result starts with two \<^verbatim>\<open>@\<close>.
\<close>

theorem update_ping_counterexample:
  "field ''ping'' (update (posix_env 0) [(''ping'', PList [PStr ''@@bob''])])
     = Inr (Some (PList [PStr ''@@bob'']))
   \<and> \<not> starts_with_one_at ''@@bob''"
  by code_simp


subsection \<open>Identifiers\<close>

lemma convert_uuid_at:
  assumes "convert_uuid env k c1 = Inr c2" and "map_of c1 k = Some v"
  shows "(is_uuid v \<or> \<not> truthy v \<longrightarrow> map_of c2 k = Some PNone)
         \<and> (truthy v \<and> \<not> is_uuid v \<longrightarrow>
              (\<exists>u. uuid_UUID env v = Inr u \<and> map_of c2 k = Some (PUUID u)))"
  using assms by (auto simp: convert_uuid_def and_then_Inr update_conv' split: if_splits)

text \<open>
  Claim C9. For \<^verbatim>\<open>platform_container_id\<close> and \<^verbatim>\<open>platform_remote_source_id\<close>, \<^verbatim>\<open>update\<close> sets
  a present field to \<^verbatim>\<open>None\<close> when its value is false and also when its value already is
  a \<^verbatim>\<open>UUID\<close>; only a true value that is not a \<^verbatim>\<open>UUID\<close> is parsed and kept as a \<^verbatim>\<open>UUID\<close>.
\<close>

theorem update_uuid_reset:
  assumes "update env c = Inr c'" and "index \<in> set uuid_indexes" and "map_of c index = Some v"
  shows "(is_uuid v \<or> \<not> truthy v \<longrightarrow> map_of c' index = Some PNone)
         \<and> (truthy v \<and> \<not> is_uuid v \<longrightarrow>
              (\<exists>u. uuid_UUID env v = Inr u \<and> map_of c' index = Some (PUUID u)))"
  using assms(1)
proof (rule update_stages_frames)
  fix c2 c5 c6 epoch_dt c7 c8 c9
  assume s2: "update_ping (AList.update ''name'' (PStr (GIT_BASE_NAME env)) c) = Inr c2"
    and s9: "for_each uuid_indexes (convert_uuid env) c8 = Inr c9"
    and f5: "\<And>j. j \<noteq> ''raw_link'' \<Longrightarrow> j \<noteq> ''custom_pyfunceble_config'' \<Longrightarrow> j \<notin> set bool_indexes \<Longrightarrow>
       map_of c5 j = map_of c2 j"
    and f6: "\<And>j. j \<notin> set float_indexes \<Longrightarrow> map_of c6 j = map_of c5 j"
    and f7: "\<And>j. j \<notin> set timestamp_indexes \<Longrightarrow> map_of c7 j = map_of c6 j"
    and f8: "\<And>j. j \<notin> set datetime_indexes \<Longrightarrow> map_of c8 j = map_of c7 j"
    and f10: "\<And>j. j \<noteq> ''repo'' \<Longrightarrow> j \<noteq> ''platform_container_name'' \<Longrightarrow> map_of c' j = map_of c9 j"
  from assms(2) have index: "index = ''platform_container_id'' \<or> index = ''platform_remote_source_id''"
    by (simp add: uuid_indexes_def)
  have "map_of c2 index = map_of c index"
    using update_ping_frame [OF s2, of index] index by (auto simp: update_conv')
  moreover have "map_of c8 index = map_of c2 index"
    using f5 [of index] f6 [of index] f7 [of index] f8 [of index] index
    by (auto simp: bool_indexes_def float_indexes_def timestamp_indexes_def datetime_indexes_def)
  ultimately have c8: "map_of c8 index = Some v" using assms(3) by simp
  have "distinct uuid_indexes" by (simp add: uuid_indexes_def)
  with for_each_at [of "convert_uuid env" uuid_indexes c8 c9 index] convert_uuid_frame s9 assms(2)
  obtain c1 c1' where step: "convert_uuid env index c1 = Inr c1'"
    and "map_of c1 index = map_of c8 index" and c9: "map_of c1' index = map_of c9 index"
    by blast
  with c8 have "map_of c1 index = Some v" by simp
  from convert_uuid_at [OF step this] c9
  have "(is_uuid v \<or> \<not> truthy v \<longrightarrow> map_of c9 index = Some PNone)
         \<and> (truthy v \<and> \<not> is_uuid v \<longrightarrow>
              (\<exists>u. uuid_UUID env v = Inr u \<and> map_of c9 index = Some (PUUID u)))"
    by simp
  moreover have "map_of c' index = map_of c9 index"
    using f10 [of index] index by auto
  ultimately show ?thesis by simp
qed

theorem update_uuid_reset_witness:
  "update (posix_env 0)
     [(''platform_container_id'', PUUID (UUID 5)),
      (''platform_remote_source_id'', PStr ''12345678-1234-5678-1234-567812345678'')]
     = Inr [(''platform_container_id'', PNone),
            (''platform_remote_source_id'', PUUID (UUID 24197857161011715162171839636988778104)),
            (''name'', PStr ''example-list''), (''repo'', PStr ''dead-hosts/example-list''),
            (''platform_container_name'', PStr ''example-list'')]
   \<and> is_uuid (PUUID (UUID 5))
   \<and> truthy (PStr ''12345678-1234-5678-1234-567812345678'')"
proof -
  have run: "update (posix_env 0)
     [(''platform_container_id'', PUUID (UUID 5)),
      (''platform_remote_source_id'', PStr ''12345678-1234-5678-1234-567812345678'')]
     = Inr [(''platform_container_id'', PNone),
            (''platform_remote_source_id'', PUUID (UUID 24197857161011715162171839636988778104)),
            (''name'', PStr ''example-list''), (''repo'', PStr ''dead-hosts/example-list''),
            (''platform_container_name'', PStr ''example-list'')]"
    by code_simp
  from update_uuid_reset [OF run, of "''platform_container_id''" "PUUID (UUID 5)"]
    update_uuid_reset [OF run, of "''platform_remote_source_id''"
      "PStr ''12345678-1234-5678-1234-567812345678''"]
    run
  show ?thesis by (simp add: uuid_indexes_def)
qed

subsection \<open>Timestamps\<close>

lemma coerce_float_at:
  assumes "coerce_float env k c1 = Inr c2" and "map_of c1 k = Some v"
  shows "(is_float v \<longrightarrow> map_of c2 k = Some v)
         \<and> (\<not> is_float v \<longrightarrow> (\<exists>f. py_float env v = Inr f \<and> map_of c2 k = Some (PFloat f)))"
  using assms by (auto simp: coerce_float_def and_then_Inr update_conv' split: if_splits)

lemma convert_timestamp_at:
  assumes "convert_timestamp env e k c1 = Inr c2" and "map_of c1 k = Some w" and "\<not> is_datetime w"
  shows "(utcfromtimestamp env w = Inl OSError \<longrightarrow> map_of c2 k = Some (PDatetime e))
         \<and> (\<forall>d. utcfromtimestamp env w = Inr d \<longrightarrow> map_of c2 k = Some (PDatetime d))
         \<and> (\<forall>x. utcfromtimestamp env w = Inl x \<longrightarrow> x = OSError)"
  using assms
  by (auto simp: convert_timestamp_def and_then_Inr try_except_def update_conv'
      split: if_splits sum.splits)

lemma convert_timestamp_no_OSError: "convert_timestamp env e k c \<noteq> Inl OSError"
  by (auto simp: convert_timestamp_def and_then_def try_except_def
      split: option.splits sum.splits)

lemma for_each_never:
  assumes "\<And>k c. body k c \<noteq> Inl x"
  shows "for_each ks body c \<noteq> Inl x"
  using assms by (induction ks arbitrary: c) (auto split: sum.splits)

text \<open>
  Claim C4, as amended. For a stored value of one of the five \<^verbatim>\<open>*_timestamp\<close> fields that
  is not a \<^verbatim>\<open>datetime\<close>, let \<open>w\<close> be what reaches \<^verbatim>\<open>utcfromtimestamp\<close> (the value, or its
  \<^verbatim>\<open>float\<close> for the fields of the coercion list). When \<^verbatim>\<open>utcfromtimestamp\<close> raises
  \<^verbatim>\<open>OSError\<close> on \<open>w\<close>, \<^verbatim>\<open>update\<close> stores the epoch-zero instant, and the loop never raises
  \<^verbatim>\<open>OSError\<close>; when it converts \<open>w\<close>, the converted instant is stored, also one before the
  epoch; any other exception ends \<^verbatim>\<open>update\<close>.
\<close>

theorem update_timestamp_OSError:
  assumes "update env c = Inr c'"
    and "index \<in> set timestamp_indexes"
    and "map_of c index = Some v" and "\<not> is_datetime v"
    and "utcfromtimestamp env (PInt 0) = Inr epoch_dt"
    and "(index \<in> set float_indexes \<and> \<not> is_float v \<and> py_float env v = Inr f \<and> w = PFloat f)
         \<or> ((index \<notin> set float_indexes \<or> is_float v) \<and> w = v)"
  shows "(utcfromtimestamp env w = Inl OSError \<longrightarrow> map_of c' index = Some (PDatetime epoch_dt))
         \<and> (\<forall>d. utcfromtimestamp env w = Inr d \<longrightarrow> map_of c' index = Some (PDatetime d))
         \<and> (\<forall>x. utcfromtimestamp env w = Inl x \<longrightarrow> x = OSError)
         \<and> (\<forall>r. for_each timestamp_indexes (convert_timestamp env epoch_dt) r \<noteq> Inl OSError)"
  using assms(1)
proof (rule update_stages_frames)
  fix c2 c5 c6 e c7 c8 c9
  assume s2: "update_ping (AList.update ''name'' (PStr (GIT_BASE_NAME env)) c) = Inr c2"
    and s6: "for_each float_indexes (coerce_float env) c5 = Inr c6"
    and e: "utcfromtimestamp env (PInt 0) = Inr e"
    and s7: "for_each timestamp_indexes (convert_timestamp env e) c6 = Inr c7"
    and f5: "\<And>j. j \<noteq> ''raw_link'' \<Longrightarrow> j \<noteq> ''custom_pyfunceble_config'' \<Longrightarrow> j \<notin> set bool_indexes \<Longrightarrow>
       map_of c5 j = map_of c2 j"
    and f6: "\<And>j. j \<notin> set float_indexes \<Longrightarrow> map_of c6 j = map_of c5 j"
    and f8: "\<And>j. j \<notin> set datetime_indexes \<Longrightarrow> map_of c8 j = map_of c7 j"
    and f9: "\<And>j. j \<notin> set uuid_indexes \<Longrightarrow> map_of c9 j = map_of c8 j"
    and f10: "\<And>j. j \<noteq> ''repo'' \<Longrightarrow> j \<noteq> ''platform_container_name'' \<Longrightarrow> map_of c' j = map_of c9 j"
  from e assms(5) have [simp]: "e = epoch_dt" by simp
  from assms(2) have index:
    "index = ''finish_timestamp'' \<or> index = ''last_download_timestamp'' \<or>
     index = ''latest_part_finish_timestamp'' \<or> index = ''latest_part_start_timestamp'' \<or>
     index = ''start_timestamp''"
    by (simp add: timestamp_indexes_def)
  have "map_of c2 index = map_of c index"
    using update_ping_frame [OF s2, of index] index by (auto simp: update_conv')
  moreover have "map_of c5 index = map_of c2 index"
    using f5 [of index] index by (auto simp: bool_indexes_def)
  ultimately have c5: "map_of c5 index = Some v" using assms(3) by simp
  have c6: "map_of c6 index = Some w"
  proof (cases "index \<in> set float_indexes")
    case True
    have "distinct float_indexes" by (simp add: float_indexes_def)
    with for_each_at [of "coerce_float env" float_indexes c5 c6 index] coerce_float_frame s6 True
    obtain c1 c1' where step: "coerce_float env index c1 = Inr c1'"
      and "map_of c1 index = map_of c5 index" and "map_of c1' index = map_of c6 index"
      by blast
    with c5 coerce_float_at [OF step, of v] assms(6) True show ?thesis by auto
  next
    case False
    with f6 [of index] c5 assms(6) show ?thesis by simp
  qed
  from assms(4,6) have w: "\<not> is_datetime w" by auto
  have "distinct timestamp_indexes" by (simp add: timestamp_indexes_def)
  with for_each_at [of "convert_timestamp env e" timestamp_indexes c6 c7 index]
    convert_timestamp_frame s7 assms(2)
  obtain c1 c1' where step: "convert_timestamp env e index c1 = Inr c1'"
    and "map_of c1 index = map_of c6 index" and c7: "map_of c1' index = map_of c7 index"
    by blast
  with c6 have "map_of c1 index = Some w" by simp
  note at = convert_timestamp_at [OF step this w]
  have "map_of c' index = map_of c7 index"
    using f8 [of index] f9 [of index] f10 [of index] index
    by (auto simp: datetime_indexes_def uuid_indexes_def)
  with at c7 for_each_never [of "convert_timestamp env epoch_dt" OSError timestamp_indexes]
    convert_timestamp_no_OSError
  show ?thesis by simp
qed

theorem update_timestamp_OSError_witness:
  "update windows_env [(''finish_timestamp'', PInt (- 1000000000000))]
     = Inr [(''finish_timestamp'', PDatetime (Datetime 0)), (''name'', PStr ''example-list''),
            (''repo'', PStr ''dead-hosts/example-list''),
            (''platform_container_name'', PStr ''example-list'')]
   \<and> utcfromtimestamp windows_env (PInt 0) = Inr (Datetime 0)
   \<and> py_float windows_env (PInt (- 1000000000000)) = Inr (Finite (- 1000000000000))
   \<and> utcfromtimestamp windows_env (PFloat (Finite (- 1000000000000))) = Inl OSError"
proof -
  have run: "update windows_env [(''finish_timestamp'', PInt (- 1000000000000))]
     = Inr [(''finish_timestamp'', PDatetime (Datetime 0)), (''name'', PStr ''example-list''),
            (''repo'', PStr ''dead-hosts/example-list''),
            (''platform_container_name'', PStr ''example-list'')]"
    by code_simp
  have epoch: "utcfromtimestamp windows_env (PInt 0) = Inr (Datetime 0)"
    by code_simp
  have float: "py_float windows_env (PInt (- 1000000000000)) = Inr (Finite (- 1000000000000))"
    by code_simp
  have raise: "utcfromtimestamp windows_env (PFloat (Finite (- 1000000000000))) = Inl OSError"
    by code_simp
  from update_timestamp_OSError
         [OF run, of "''finish_timestamp''" "PInt (- 1000000000000)" "Datetime 0"
            "Finite (- 1000000000000)" "PFloat (Finite (- 1000000000000))"]
    run epoch float raise
  show ?thesis by (simp add: timestamp_indexes_def float_indexes_def)
qed

text \<open>
  Claim C4 as stated fails on a POSIX host: the stored timestamp \<^verbatim>\<open>-1000000000000\<close> makes
  \<^verbatim>\<open>update\<close> raise \<^verbatim>\<open>ValueError\<close>, and the stored timestamp \<^verbatim>\<open>-1\<close> is kept as the instant
  one second before the epoch.
\<close>

theorem update_timestamp_counterexample:
  "update (posix_env 0) [(''finish_timestamp'', PInt (- 1000000000000))] = Inl ValueError
   \<and> field ''finish_timestamp'' (update (posix_env 0) [(''finish_timestamp'', PInt (- 1))])
       = Inr (Some (PDatetime (Datetime (- 1000000))))
   \<and> utcfromtimestamp (posix_env 0) (PInt 0) = Inr (Datetime 0)"
  by code_simp

subsection \<open>\<^verbatim>\<open>create_missing_index\<close> and \<^verbatim>\<open>clean\<close>\<close>

lemma map_of_create_index:
  "map_of (create_index kv c) k
     = (case map_of c k of None \<Rightarrow> (if k = fst kv then Some (snd kv) else None) | Some v \<Rightarrow> Some v)"
  by (auto simp: create_index_def update_conv' split: option.splits)

lemma map_of_create_missing:
  "map_of (fold create_index ixs c) k
     = (case map_of c k of None \<Rightarrow> map_of ixs k | Some v \<Rightarrow> Some v)"
proof (induction ixs arbitrary: c)
  case Nil
  then show ?case by (simp split: option.splits)
next
  case (Cons kv ixs)
  show ?case
    by (cases kv) (simp add: Cons.IH map_of_create_index split: option.splits)
qed

lemma map_of_clean_index:
  "map_of (clean_index j c) k = (if k = j then None else map_of c k)"
  by (auto simp: clean_index_def delete_conv')

lemma map_of_fold_clean_index:
  "map_of (fold clean_index ks c) k = (if k \<in> set ks then None else map_of c k)"
  by (induction ks arbitrary: c) (simp_all add: map_of_clean_index)

lemma map_of_clean: "map_of (clean c) k = (if k \<in> set clean_indexes then None else map_of c k)"
  by (simp add: clean_def map_of_fold_clean_index)

lemma field_normalize:
  "field k (normalize_content env c)
     = and_then (update env c) (\<lambda>c1.
       and_then (indexes env) (\<lambda>ixs.
       Inr (if k \<in> set clean_indexes then None
            else (case map_of c1 k of None \<Rightarrow> map_of ixs k | Some v \<Rightarrow> Some v))))"
  by (simp add: field_def normalize_content_def create_missing_index_def and_then_def
        map_of_clean map_of_create_missing split: sum.splits)

subsection \<open>The float coercion\<close>

text \<open>
  Claim C2 against the code. The loop of the float coercion leaves
  \<^verbatim>\<open>latest_part_finish_timestamp\<close> as it is (the integer 1000 stays an integer) where it
  coerces \<^verbatim>\<open>latest_part_start_timestamp\<close>; with the string \<^verbatim>\<open>"1000"\<close> stored,
  \<^verbatim>\<open>update\<close> raises \<^verbatim>\<open>TypeError\<close> for the former and converts the latter.
\<close>

theorem coerce_float_missing_comma:
  "field ''latest_part_finish_timestamp''
     (for_each float_indexes (coerce_float (posix_env 0))
        [(''latest_part_finish_timestamp'', PInt 1000), (''latest_part_start_timestamp'', PInt 1000)])
     = Inr (Some (PInt 1000))
   \<and> field ''latest_part_start_timestamp''
     (for_each float_indexes (coerce_float (posix_env 0))
        [(''latest_part_finish_timestamp'', PInt 1000), (''latest_part_start_timestamp'', PInt 1000)])
     = Inr (Some (PFloat (Finite 1000)))
   \<and> update (posix_env 0) [(''latest_part_finish_timestamp'', PStr ''1000'')] = Inl TypeError
   \<and> field ''latest_part_start_timestamp''
         (update (posix_env 0) [(''latest_part_start_timestamp'', PStr ''1000'')])
       = Inr (Some (PDatetime (Datetime 1000000000)))"
  by code_simp

subsection \<open>Unique keys\<close>

lemma for_each_distinct:
  assumes "\<And>x c c'. body x c = Inr c' \<Longrightarrow> distinct (map fst c) \<Longrightarrow> distinct (map fst c')"
  shows "for_each xs body c = Inr c' \<Longrightarrow> distinct (map fst c) \<Longrightarrow> distinct (map fst c')"
proof (induction xs arbitrary: c)
  case Nil
  then show ?case by simp
next
  case (Cons x xs)
  from Cons.prems(1) obtain c1 where step: "body x c = Inr c1" and rest: "for_each xs body c1 = Inr c'"
    by (auto split: sum.splits)
  from assms [OF step Cons.prems(2)] have "distinct (map fst c1)" .
  from Cons.IH [OF rest this] show ?case .
qed

lemma update_ping_distinct:
  "update_ping c = Inr c' \<Longrightarrow> distinct (map fst c) \<Longrightarrow> distinct (map fst c')"
  by (auto simp: update_ping_def and_then_Inr distinct_update split: option.splits)

lemma update_raw_link_distinct:
  "distinct (map fst c) \<Longrightarrow> distinct (map fst (update_raw_link c))"
  by (auto simp: update_raw_link_def distinct_update split: option.splits)

lemma update_custom_config_distinct:
  "distinct (map fst c) \<Longrightarrow> distinct (map fst (update_custom_config env c))"
  by (auto simp: update_custom_config_def Let_def distinct_update split: option.splits pyval.splits)

lemma coerce_bool_distinct:
  "coerce_bool env k c = Inr c' \<Longrightarrow> distinct (map fst c) \<Longrightarrow> distinct (map fst c')"
  by (auto simp: coerce_bool_def and_then_Inr distinct_update split: option.splits if_splits)

lemma coerce_float_distinct:
  "coerce_float env k c = Inr c' \<Longrightarrow> distinct (map fst c) \<Longrightarrow> distinct (map fst c')"
  by (auto simp: coerce_float_def and_then_Inr distinct_update split: option.splits if_splits)

lemma convert_timestamp_distinct:
  "convert_timestamp env e k c = Inr c' \<Longrightarrow> distinct (map fst c) \<Longrightarrow> distinct (map fst c')"
  by (auto simp: convert_timestamp_def and_then_Inr distinct_update split: option.splits if_splits)

lemma convert_datetime_distinct:
  "convert_datetime env e k c = Inr c' \<Longrightarrow> distinct (map fst c) \<Longrightarrow> distinct (map fst c')"
  by (auto simp: convert_datetime_def and_then_Inr distinct_update split: option.splits if_splits)

lemma convert_uuid_distinct:
  "convert_uuid env k c = Inr c' \<Longrightarrow> distinct (map fst c) \<Longrightarrow> distinct (map fst c')"
  by (auto simp: convert_uuid_def and_then_Inr distinct_update split: option.splits if_splits)

lemma update_container_name_distinct:
  "update_container_name c = Inr c' \<Longrightarrow> distinct (map fst c) \<Longrightarrow> distinct (map fst c')"
  by (auto simp: update_container_name_def distinct_update split: option.splits pyval.splits)

lemma update_distinct:
  assumes "update env c = Inr c'" and "distinct (map fst c)"
  shows "distinct (map fst c')"
proof -
  from assms(1) obtain c2 c5 c6 epoch_dt c7 c8 c9 where
    s2: "update_ping (AList.update ''name'' (PStr (GIT_BASE_NAME env)) c) = Inr c2" and
    s5: "for_each bool_indexes (coerce_bool env) (update_custom_config env (update_raw_link c2)) = Inr c5" and
    s6: "for_each float_indexes (coerce_float env) c5 = Inr c6" and
    s7: "for_each timestamp_indexes (convert_timestamp env epoch_dt) c6 = Inr c7" and
    s8: "for_each datetime_indexes (convert_datetime env epoch_dt) c7 = Inr c8" and
    s9: "for_each uuid_indexes (convert_uuid env) c8 = Inr c9" and
    s10: "update_container_name (AList.update ''repo'' (PStr (repo_name env)) c9) = Inr c'"
    by (rule update_stages)
  have "distinct (map fst c2)"
    using update_ping_distinct [OF s2] assms(2) by (simp add: distinct_update)
  then have "distinct (map fst (update_custom_config env (update_raw_link c2)))"
    by (simp add: update_custom_config_distinct update_raw_link_distinct)
  then have "distinct (map fst c5)"
    using for_each_distinct [of "coerce_bool env" _ "update_custom_config env (update_raw_link c2)" c5] coerce_bool_distinct s5 by blast
  then have "distinct (map fst c6)"
    using for_each_distinct [of "coerce_float env" _ "c5" c6] coerce_float_distinct s6 by blast
  then have "distinct (map fst c7)"
    using for_each_distinct [of "convert_timestamp env epoch_dt" _ "c6" c7] convert_timestamp_distinct s7 by blast
  then have "distinct (map fst c8)"
    using for_each_distinct [of "convert_datetime env epoch_dt" _ "c7" c8] convert_datetime_distinct s8 by blast
  then have "distinct (map fst c9)"
    using for_each_distinct [of "convert_uuid env" _ "c8" c9] convert_uuid_distinct s9 by blast
  then have "distinct (map fst (AList.update ''repo'' (PStr (repo_name env)) c9))"
    by (simp add: distinct_update)
  then show ?thesis
    by (rule update_container_name_distinct [OF s10])
qed

lemma fold_create_index_distinct:
  "distinct (map fst c) \<Longrightarrow> distinct (map fst (fold create_index ixs c))"
  by (induction ixs arbitrary: c) (simp_all add: create_index_def distinct_update)

lemma fold_clean_index_distinct:
  "distinct (map fst c) \<Longrightarrow> distinct (map fst (fold clean_index ks c))"
  by (induction ks arbitrary: c) (simp_all add: clean_index_def distinct_delete)

lemma normalize_content_distinct:
  assumes "normalize_content env c = Inr c'" and "distinct (map fst c)"
  shows "distinct (map fst c')"
proof -
  from assms(1) obtain c1 ixs where
    u: "update env c = Inr c1" and c': "c' = clean (fold create_index ixs c1)"
    by (auto simp: normalize_content_def create_missing_index_def and_then_Inr)
  from update_distinct [OF u assms(2)] show ?thesis
    unfolding c' clean_def by (intro fold_clean_index_distinct fold_create_index_distinct)
qed

lemma normalize_content_at:
  assumes "normalize_content env c = Inr c'"
  shows "\<exists>c1 ixs. update env c = Inr c1 \<and> indexes env = Inr ixs
           \<and> (\<forall>k. map_of c' k
                 = (if k \<in> set clean_indexes then None
                    else (case map_of c1 k of None \<Rightarrow> map_of ixs k | Some v \<Rightarrow> Some v)))"
  using assms
  by (auto simp: normalize_content_def create_missing_index_def and_then_Inr
      map_of_clean map_of_create_missing)

subsection \<open>\<^verbatim>\<open>store\<close>\<close>

lemma store_loop_at:
  "for_each xs (store_item env) acc = Inr w \<Longrightarrow> distinct (map fst xs) \<Longrightarrow>
   map_of w k
     = (case map_of xs k of
          None \<Rightarrow> map_of acc k
        | Some v \<Rightarrow> (case store_value env k v of Inl e \<Rightarrow> None | Inr v' \<Rightarrow> Some v'))"
proof (induction xs arbitrary: acc)
  case Nil
  then show ?case by simp
next
  case (Cons x xs)
  obtain j v where x: "x = (j, v)" by (cases x)
  from Cons.prems(1) obtain acc' where
    step: "store_item env x acc = Inr acc'" and rest: "for_each xs (store_item env) acc' = Inr w"
    by (auto split: sum.splits)
  from step x obtain v' where
    v': "store_value env j v = Inr v'" and acc': "acc' = AList.update j v' acc"
    by (auto simp: store_item_def and_then_Inr)
  from Cons.prems(2) x have d: "distinct (map fst xs)" and j: "map_of xs j = None"
    by (auto simp: map_of_eq_None_iff)
  from Cons.IH [OF rest d] x v' j acc' show ?case
    by (auto simp: update_conv' split: option.splits)
qed

lemma store_at:
  "store env c = Inr w \<Longrightarrow> distinct (map fst c) \<Longrightarrow>
   map_of w k
     = (case map_of c k of
          None \<Rightarrow> None
        | Some v \<Rightarrow> (case store_value env k v of Inl e \<Rightarrow> None | Inr v' \<Rightarrow> Some v'))"
  unfolding store_def using store_loop_at [of c env "[]" w k] by (auto split: option.splits)

lemma store_loop_succeeds:
  "(\<And>k v. \<exists>v'. store_value env k v = Inr v') \<Longrightarrow> \<exists>w. for_each xs (store_item env) acc = Inr w"
proof (induction xs arbitrary: acc)
  case Nil
  then show ?case by simp
next
  case (Cons x xs)
  from Cons.prems obtain v' where "store_value env (fst x) (snd x) = Inr v'" by blast
  with Cons.IH [OF Cons.prems] show ?case
    by (simp add: store_item_def and_then_def)
qed

lemma store_value_total:
  assumes "\<And>d. \<exists>f. timestamp env d = Inr f"
  shows "\<exists>v'. store_value env k v = Inr v'"
proof (cases v)
  case (PDatetime d)
  from assms obtain f where "timestamp env d = Inr f" by blast
  with PDatetime show ?thesis by (simp add: and_then_def try_except_def)
qed simp_all

lemma store_succeeds:
  "(\<And>d. \<exists>f. timestamp env d = Inr f) \<Longrightarrow> \<exists>w. store env c = Inr w"
  unfolding store_def by (rule store_loop_succeeds) (rule store_value_total)

lemma store_item_distinct:
  "store_item env x c = Inr c' \<Longrightarrow> distinct (map fst c) \<Longrightarrow> distinct (map fst c')"
  by (auto simp: store_item_def and_then_Inr distinct_update)

lemma store_distinct: "store env c = Inr w \<Longrightarrow> distinct (map fst w)"
  unfolding store_def
  using for_each_distinct [of "store_item env" c "[]" w] store_item_distinct by fastforce


subsection \<open>When \<^verbatim>\<open>update\<close> returns\<close>

lemma for_each_succeeds:
  assumes frame: "\<And>k c c' j. body k c = Inr c' \<Longrightarrow> j \<noteq> k \<Longrightarrow> map_of c' j = map_of c j"
  shows "distinct ks \<Longrightarrow>
         (\<And>k c1. k \<in> set ks \<Longrightarrow> map_of c1 k = map_of c k \<Longrightarrow> \<exists>c2. body k c1 = Inr c2) \<Longrightarrow>
         \<exists>c'. for_each ks body c = Inr c'"
proof (induction ks arbitrary: c)
  case Nil
  then show ?case by simp
next
  case (Cons x ks)
  from Cons.prems(2) [of x c] obtain s where step: "body x c = Inr s" by auto
  have "\<exists>c2. body k c1 = Inr c2" if "k \<in> set ks" "map_of c1 k = map_of s k" for k c1
  proof -
    from that(1) Cons.prems(1) have "k \<noteq> x" by auto
    from frame [OF step this] that(2) have "map_of c1 k = map_of c k" by simp
    with Cons.prems(2) [of k c1] that(1) show ?thesis by simp
  qed
  with Cons.IH [of s] Cons.prems(1) obtain c' where "for_each ks body s = Inr c'" by auto
  with step show ?case by simp
qed

lemma coerce_bool_succeeds:
  "(\<And>v. map_of c k = Some v \<Longrightarrow> is_bool v \<or> (\<exists>n. py_int env v = Inr n)) \<Longrightarrow>
   \<exists>c'. coerce_bool env k c = Inr c'"
  by (cases "map_of c k") (auto simp: coerce_bool_def and_then_def)

lemma coerce_float_succeeds:
  "(\<And>v. map_of c k = Some v \<Longrightarrow> is_float v \<or> (\<exists>f. py_float env v = Inr f)) \<Longrightarrow>
   \<exists>c'. coerce_float env k c = Inr c'"
  by (cases "map_of c k") (auto simp: coerce_float_def and_then_def)

lemma convert_timestamp_succeeds:
  "(\<And>v. map_of c k = Some v \<Longrightarrow>
      is_datetime v \<or> (\<exists>d. try_except (utcfromtimestamp env v) OSError e = Inr d)) \<Longrightarrow>
   \<exists>c'. convert_timestamp env e k c = Inr c'"
  by (cases "map_of c k") (auto simp: convert_timestamp_def and_then_def)

lemma convert_datetime_succeeds:
  "(\<And>v. map_of c k = Some v \<Longrightarrow>
      \<not> truthy v \<or> is_datetime v \<or> (\<exists>d. try_except (fromisoformat env v) ValueError e = Inr d)) \<Longrightarrow>
   \<exists>c'. convert_datetime env e k c = Inr c'"
  by (cases "map_of c k") (auto simp: convert_datetime_def and_then_def)

lemma convert_uuid_succeeds:
  "(\<And>v. map_of c k = Some v \<Longrightarrow> \<not> truthy v \<or> is_uuid v \<or> (\<exists>u. uuid_UUID env v = Inr u)) \<Longrightarrow>
   \<exists>c'. convert_uuid env k c = Inr c'"
  by (cases "map_of c k") (auto simp: convert_uuid_def and_then_def)

lemma float_loop_keeps_float:
  assumes "for_each float_indexes (coerce_float env) c = Inr c'"
    and "map_of c k = Some v" and "is_float v"
  shows "map_of c' k = Some v"
proof (cases "k \<in> set float_indexes")
  case True
  have "distinct float_indexes" by (simp add: float_indexes_def)
  with for_each_at [of "coerce_float env" float_indexes c c' k] coerce_float_frame assms(1) True
  obtain c1 c1' where step: "coerce_float env k c1 = Inr c1'"
    and "map_of c1 k = map_of c k" and "map_of c1' k = map_of c' k"
    by blast
  with assms(2,3) coerce_float_at [OF step, of v] show ?thesis by auto
next
  case False
  from float_loop_frame [OF assms(1) False] assms(2) show ?thesis by simp
qed

text \<open>
  A sufficient condition for \<^verbatim>\<open>update\<close> to return: every field it converts is absent or
  holds a value that its conversion accepts.
\<close>

lemma update_succeeds:
  assumes list_name: "\<And>v. map_of c ''list_name'' = Some v \<Longrightarrow> is_str v"
    and ping: "\<And>p. map_of c ''ping'' = Some p \<Longrightarrow> \<exists>names. p = PList (map PStr names)"
    and bools: "\<And>k v. k \<in> set bool_indexes \<Longrightarrow> map_of c k = Some v \<Longrightarrow>
                  is_bool v \<or> (\<exists>n. py_int env v = Inr n)"
    and floats: "\<And>k v. k \<in> set float_indexes \<Longrightarrow> map_of c k = Some v \<Longrightarrow>
                  is_float v \<or> (\<exists>f. py_float env v = Inr f)"
    and epoch: "utcfromtimestamp env (PInt 0) = Inr e"
    and timestamps: "\<And>k v. k \<in> set timestamp_indexes \<Longrightarrow> map_of c k = Some v \<Longrightarrow>
                  is_float v \<and> (\<exists>d. try_except (utcfromtimestamp env v) OSError e = Inr d)"
    and datetimes: "\<And>k v. k \<in> set datetime_indexes \<Longrightarrow> map_of c k = Some v \<Longrightarrow>
                  \<not> truthy v \<or> is_datetime v
                  \<or> (\<exists>d. try_except (fromisoformat env v) ValueError e = Inr d)"
    and uuids: "\<And>k v. k \<in> set uuid_indexes \<Longrightarrow> map_of c k = Some v \<Longrightarrow>
                  \<not> truthy v \<or> is_uuid v \<or> (\<exists>u. uuid_UUID env v = Inr u)"
  shows "\<exists>c'. update env c = Inr c'"
proof -
  define c1 where "c1 = AList.update ''name'' (PStr (GIT_BASE_NAME env)) c"
  have f1: "map_of c1 j = map_of c j" if "j \<noteq> ''name''" for j
    using that by (simp add: c1_def update_conv')
  have "\<exists>files. to_delete c1 = Inr files"
  proof (cases "map_of c ''list_name''")
    case None
    then show ?thesis by (simp add: to_delete_def f1)
  next
    case (Some v)
    with list_name [of v] show ?thesis by (cases v) (simp_all add: to_delete_def f1)
  qed
  then obtain files where s1: "to_delete c1 = Inr files" ..
  have "\<exists>c2. update_ping c1 = Inr c2"
  proof (cases "map_of c ''ping''")
    case None
    then show ?thesis by (simp add: update_ping_def f1)
  next
    case (Some p)
    with ping [of p] show ?thesis
      by (auto simp: update_ping_def f1 and_then_def collect_ping_entry)
  qed
  then obtain c2 where s2: "update_ping c1 = Inr c2" ..
  define c4 where "c4 = update_custom_config env (update_raw_link c2)"
  have f4: "map_of c4 j = map_of c j"
    if "j \<noteq> ''name''" "j \<noteq> ''ping''" "j \<noteq> ''raw_link''" "j \<noteq> ''custom_pyfunceble_config''" for j
    using that update_ping_frame [OF s2, of j]
    by (simp add: c4_def update_custom_config_frame update_raw_link_frame f1)
  have "\<exists>c5. for_each bool_indexes (coerce_bool env) c4 = Inr c5"
  proof (rule for_each_succeeds)
    show "distinct bool_indexes" by (simp add: bool_indexes_def)
    fix k c' assume k: "k \<in> set bool_indexes" and eq: "map_of c' k = map_of c4 k"
    from k have "map_of c4 k = map_of c k" by (intro f4) (auto simp: bool_indexes_def)
    with eq bools [OF k] show "\<exists>c2. coerce_bool env k c' = Inr c2"
      by (intro coerce_bool_succeeds) simp
  qed (rule coerce_bool_frame)
  then obtain c5 where s5: "for_each bool_indexes (coerce_bool env) c4 = Inr c5" ..
  have f5: "map_of c5 j = map_of c j"
    if "j \<noteq> ''name''" "j \<noteq> ''ping''" "j \<noteq> ''raw_link''" "j \<noteq> ''custom_pyfunceble_config''"
      "j \<notin> set bool_indexes" for j
    using that bool_loop_frame [OF s5, of j] f4 [of j] by simp
  have "\<exists>c6. for_each float_indexes (coerce_float env) c5 = Inr c6"
  proof (rule for_each_succeeds)
    show "distinct float_indexes" by (simp add: float_indexes_def)
    fix k c' assume k: "k \<in> set float_indexes" and eq: "map_of c' k = map_of c5 k"
    from k have "map_of c5 k = map_of c k"
      by (intro f5) (auto simp: float_indexes_def bool_indexes_def)
    with eq floats [OF k] show "\<exists>c2. coerce_float env k c' = Inr c2"
      by (intro coerce_float_succeeds) simp
  qed (rule coerce_float_frame)
  then obtain c6 where s6: "for_each float_indexes (coerce_float env) c5 = Inr c6" ..
  have "\<exists>c7. for_each timestamp_indexes (convert_timestamp env e) c6 = Inr c7"
  proof (rule for_each_succeeds)
    show "distinct timestamp_indexes" by (simp add: timestamp_indexes_def)
    fix k c' assume k: "k \<in> set timestamp_indexes" and eq: "map_of c' k = map_of c6 k"
    from k have c5: "map_of c5 k = map_of c k"
      by (intro f5) (auto simp: timestamp_indexes_def bool_indexes_def)
    show "\<exists>c2. convert_timestamp env e k c' = Inr c2"
    proof (rule convert_timestamp_succeeds)
      fix v assume "map_of c' k = Some v"
      with eq have v6: "map_of c6 k = Some v" by simp
      have "map_of c k = Some v"
      proof (cases "map_of c k")
        case None
        with c5 have "map_of c5 k = None" by simp
        moreover have "map_of c6 k = map_of c5 k"
        proof (cases "k \<in> set float_indexes")
          case True
          have "distinct float_indexes" by (simp add: float_indexes_def)
          with for_each_at [of "coerce_float env" float_indexes c5 c6 k] coerce_float_frame s6 True
          obtain a a' where "coerce_float env k a = Inr a'"
            and "map_of a k = map_of c5 k" and "map_of a' k = map_of c6 k"
            by blast
          with \<open>map_of c5 k = None\<close> show ?thesis by (simp add: coerce_float_def)
        next
          case False
          then show ?thesis by (rule float_loop_frame [OF s6])
        qed
        ultimately show ?thesis using v6 by simp
      next
        case (Some u)
        with timestamps [OF k] have "is_float u" by simp
        with float_loop_keeps_float [OF s6, of k u] c5 Some v6 show ?thesis by simp
      qed
      with timestamps [OF k]
      show "is_datetime v \<or> (\<exists>d. try_except (utcfromtimestamp env v) OSError e = Inr d)" by simp
    qed
  qed (rule convert_timestamp_frame)
  then obtain c7 where s7: "for_each timestamp_indexes (convert_timestamp env e) c6 = Inr c7" ..
  have f7: "map_of c7 j = map_of c j"
    if "j \<noteq> ''name''" "j \<noteq> ''ping''" "j \<noteq> ''raw_link''" "j \<noteq> ''custom_pyfunceble_config''"
      "j \<notin> set bool_indexes" "j \<notin> set float_indexes" "j \<notin> set timestamp_indexes" for j
    using that timestamp_loop_frame [OF s7, of j] float_loop_frame [OF s6, of j] f5 [of j] by simp
  have "\<exists>c8. for_each datetime_indexes (convert_datetime env e) c7 = Inr c8"
  proof (rule for_each_succeeds)
    show "distinct datetime_indexes" by (simp add: datetime_indexes_def)
    fix k c' assume k: "k \<in> set datetime_indexes" and eq: "map_of c' k = map_of c7 k"
    from k have "map_of c7 k = map_of c k"
      by (intro f7)
        (auto simp: datetime_indexes_def bool_indexes_def float_indexes_def timestamp_indexes_def)
    with eq datetimes [OF k] show "\<exists>c2. convert_datetime env e k c' = Inr c2"
      by (intro convert_datetime_succeeds) simp
  qed (rule convert_datetime_frame)
  then obtain c8 where s8: "for_each datetime_indexes (convert_datetime env e) c7 = Inr c8" ..
  have f8: "map_of c8 j = map_of c j"
    if "j \<noteq> ''name''" "j \<noteq> ''ping''" "j \<noteq> ''raw_link''" "j \<noteq> ''custom_pyfunceble_config''"
      "j \<notin> set bool_indexes" "j \<notin> set float_indexes" "j \<notin> set timestamp_indexes"
      "j \<notin> set datetime_indexes" for j
    using that datetime_loop_frame [OF s8, of j] f7 [of j] by simp
  have "\<exists>c9. for_each uuid_indexes (convert_uuid env) c8 = Inr c9"
  proof (rule for_each_succeeds)
    show "distinct uuid_indexes" by (simp add: uuid_indexes_def)
    fix k c' assume k: "k \<in> set uuid_indexes" and eq: "map_of c' k = map_of c8 k"
    from k have "map_of c8 k = map_of c k"
      by (intro f8)
        (auto simp: uuid_indexes_def datetime_indexes_def bool_indexes_def float_indexes_def
           timestamp_indexes_def)
    with eq uuids [OF k] show "\<exists>c2. convert_uuid env k c' = Inr c2"
      by (intro convert_uuid_succeeds) simp
  qed (rule convert_uuid_frame)
  then obtain c9 where s9: "for_each uuid_indexes (convert_uuid env) c8 = Inr c9" ..
  have "map_of c2 ''name'' = Some (PStr (GIT_BASE_NAME env))"
    using update_ping_frame [OF s2, of "''name''"] by (simp add: c1_def update_conv')
  then have "map_of c4 ''name'' = Some (PStr (GIT_BASE_NAME env))"
    by (simp add: c4_def update_custom_config_frame update_raw_link_frame)
  then have "map_of c5 ''name'' = Some (PStr (GIT_BASE_NAME env))"
    using bool_loop_frame [OF s5, of "''name''"] by (simp add: bool_indexes_def)
  then have "map_of c6 ''name'' = Some (PStr (GIT_BASE_NAME env))"
    using float_loop_frame [OF s6, of "''name''"] by (simp add: float_indexes_def)
  then have "map_of c7 ''name'' = Some (PStr (GIT_BASE_NAME env))"
    using timestamp_loop_frame [OF s7, of "''name''"] by (simp add: timestamp_indexes_def)
  then have "map_of c8 ''name'' = Some (PStr (GIT_BASE_NAME env))"
    using datetime_loop_frame [OF s8, of "''name''"] by (simp add: datetime_indexes_def)
  then have "map_of c9 ''name'' = Some (PStr (GIT_BASE_NAME env))"
    using uuid_loop_frame [OF s9, of "''name''"] by (simp add: uuid_indexes_def)
  then have "\<exists>c'. update_container_name (AList.update ''repo'' (PStr (repo_name env)) c9) = Inr c'"
    by (simp add: update_container_name_def update_conv')
  with s1 s2 s5 s6 epoch s7 s8 s9 show ?thesis
    by (simp add: update_def and_then_def c1_def [symmetric] c4_def [symmetric] Let_def)
qed


lemma update_timestamp_float:
  assumes "update env c = Inr c'" and "k \<in> set timestamp_indexes"
    and "map_of c k = Some v" and "is_float v" and "utcfromtimestamp env (PInt 0) = Inr e"
  shows "\<exists>d. try_except (utcfromtimestamp env v) OSError e = Inr d
             \<and> map_of c' k = Some (PDatetime d)"
  using assms(1)
proof (rule update_stages_frames)
  fix c2 c5 c6 e' c7 c8 c9
  assume s2: "update_ping (AList.update ''name'' (PStr (GIT_BASE_NAME env)) c) = Inr c2"
    and s6: "for_each float_indexes (coerce_float env) c5 = Inr c6"
    and e': "utcfromtimestamp env (PInt 0) = Inr e'"
    and s7: "for_each timestamp_indexes (convert_timestamp env e') c6 = Inr c7"
    and f5: "\<And>j. j \<noteq> ''raw_link'' \<Longrightarrow> j \<noteq> ''custom_pyfunceble_config'' \<Longrightarrow> j \<notin> set bool_indexes \<Longrightarrow>
       map_of c5 j = map_of c2 j"
    and f8: "\<And>j. j \<notin> set datetime_indexes \<Longrightarrow> map_of c8 j = map_of c7 j"
    and f9: "\<And>j. j \<notin> set uuid_indexes \<Longrightarrow> map_of c9 j = map_of c8 j"
    and f10: "\<And>j. j \<noteq> ''repo'' \<Longrightarrow> j \<noteq> ''platform_container_name'' \<Longrightarrow> map_of c' j = map_of c9 j"
  from e' assms(5) have [simp]: "e' = e" by simp
  from assms(2) have k:
    "k = ''finish_timestamp'' \<or> k = ''last_download_timestamp'' \<or>
     k = ''latest_part_finish_timestamp'' \<or> k = ''latest_part_start_timestamp'' \<or>
     k = ''start_timestamp''"
    by (simp add: timestamp_indexes_def)
  have "map_of c2 k = map_of c k"
    using update_ping_frame [OF s2, of k] k by (auto simp: update_conv')
  moreover have "map_of c5 k = map_of c2 k"
    using f5 [of k] k by (auto simp: bool_indexes_def)
  ultimately have "map_of c5 k = Some v" using assms(3) by simp
  from float_loop_keeps_float [OF s6 this assms(4)] have c6: "map_of c6 k = Some v" .
  have "distinct timestamp_indexes" by (simp add: timestamp_indexes_def)
  with for_each_at [of "convert_timestamp env e'" timestamp_indexes c6 c7 k]
    convert_timestamp_frame s7 assms(2)
  obtain a a' where step: "convert_timestamp env e' k a = Inr a'"
    and "map_of a k = map_of c6 k" and c7: "map_of a' k = map_of c7 k"
    by blast
  with c6 have a: "map_of a k = Some v" by simp
  from assms(4) have "\<not> is_datetime v" by (cases v) simp_all
  with step a have "\<exists>d. try_except (utcfromtimestamp env v) OSError e = Inr d
                      \<and> map_of a' k = Some (PDatetime d)"
    by (auto simp: convert_timestamp_def and_then_Inr update_conv')
  moreover have "map_of c' k = map_of c7 k"
    using f8 [of k] f9 [of k] f10 [of k] k
    by (auto simp: datetime_indexes_def uuid_indexes_def)
  ultimately show ?thesis using c7 by simp
qed


subsection \<open>Running twice\<close>

text \<open>
  \<^verbatim>\<open>update\<close> applied to its own output: a parsed \<^verbatim>\<open>finish_datetime\<close> is reset to the epoch,
  a parsed \<^verbatim>\<open>platform_container_id\<close> is reset to \<^verbatim>\<open>None\<close>, and a converted
  \<^verbatim>\<open>finish_timestamp\<close> makes \<^verbatim>\<open>float\<close> raise \<^verbatim>\<open>TypeError\<close>.
\<close>

lemma update_twice_differs:
  "field ''finish_datetime''
     (update (posix_env 0) [(''finish_datetime'', PStr ''2023-10-30T22:13:20'')])
     = Inr (Some (PDatetime (Datetime 1698704000000000)))
   \<and> field ''finish_datetime''
     (and_then (update (posix_env 0) [(''finish_datetime'', PStr ''2023-10-30T22:13:20'')])
        (update (posix_env 0)))
     = Inr (Some (PDatetime (Datetime 0)))
   \<and> field ''platform_container_id''
         (update (posix_env 0)
            [(''platform_container_id'', PStr ''12345678-1234-5678-1234-567812345678'')])
     = Inr (Some (PUUID (UUID 24197857161011715162171839636988778104)))
   \<and> field ''platform_container_id''
         (and_then
            (update (posix_env 0)
               [(''platform_container_id'', PStr ''12345678-1234-5678-1234-567812345678'')])
            (update (posix_env 0)))
     = Inr (Some PNone)
   \<and> field ''finish_timestamp'' (update (posix_env 0) [(''finish_timestamp'', PFloat (Finite 1000))])
     = Inr (Some (PDatetime (Datetime 1000000000)))
   \<and> and_then (update (posix_env 0) [(''finish_timestamp'', PFloat (Finite 1000))])
         (update (posix_env 0))
     = Inl TypeError"
  by code_simp

lemma update_timestamp_absent:
  assumes "update env c = Inr c'" and "k \<in> set timestamp_indexes" and "map_of c k = None"
  shows "map_of c' k = None"
  using assms(1)
proof (rule update_stages_frames)
  fix c2 c5 c6 e c7 c8 c9
  assume s2: "update_ping (AList.update ''name'' (PStr (GIT_BASE_NAME env)) c) = Inr c2"
    and s6: "for_each float_indexes (coerce_float env) c5 = Inr c6"
    and s7: "for_each timestamp_indexes (convert_timestamp env e) c6 = Inr c7"
    and f5: "\<And>j. j \<noteq> ''raw_link'' \<Longrightarrow> j \<noteq> ''custom_pyfunceble_config'' \<Longrightarrow> j \<notin> set bool_indexes \<Longrightarrow>
       map_of c5 j = map_of c2 j"
    and f6: "\<And>j. j \<notin> set float_indexes \<Longrightarrow> map_of c6 j = map_of c5 j"
    and f8: "\<And>j. j \<notin> set datetime_indexes \<Longrightarrow> map_of c8 j = map_of c7 j"
    and f9: "\<And>j. j \<notin> set uuid_indexes \<Longrightarrow> map_of c9 j = map_of c8 j"
    and f10: "\<And>j. j \<noteq> ''repo'' \<Longrightarrow> j \<noteq> ''platform_container_name'' \<Longrightarrow> map_of c' j = map_of c9 j"
  from assms(2) have k:
    "k = ''finish_timestamp'' \<or> k = ''last_download_timestamp'' \<or>
     k = ''latest_part_finish_timestamp'' \<or> k = ''latest_part_start_timestamp'' \<or>
     k = ''start_timestamp''"
    by (simp add: timestamp_indexes_def)
  have "map_of c2 k = map_of c k"
    using update_ping_frame [OF s2, of k] k by (auto simp: update_conv')
  moreover have "map_of c5 k = map_of c2 k"
    using f5 [of k] k by (auto simp: bool_indexes_def)
  ultimately have c5: "map_of c5 k = None" using assms(3) by simp
  have c6: "map_of c6 k = None"
  proof (cases "k \<in> set float_indexes")
    case True
    have "distinct float_indexes" by (simp add: float_indexes_def)
    with for_each_at [of "coerce_float env" float_indexes c5 c6 k] coerce_float_frame s6 True
    obtain a a' where "coerce_float env k a = Inr a'"
      and "map_of a k = map_of c5 k" and "map_of a' k = map_of c6 k"
      by blast
    with c5 show ?thesis by (simp add: coerce_float_def)
  next
    case False
    with f6 [of k] c5 show ?thesis by simp
  qed
  have "distinct timestamp_indexes" by (simp add: timestamp_indexes_def)
  with for_each_at [of "convert_timestamp env e" timestamp_indexes c6 c7 k]
    convert_timestamp_frame s7 assms(2)
  obtain a a' where "convert_timestamp env e k a = Inr a'"
    and "map_of a k = map_of c6 k" and "map_of a' k = map_of c7 k"
    by blast
  with c6 have "map_of c7 k = None" by (simp add: convert_timestamp_def)
  moreover have "map_of c' k = map_of c7 k"
    using f8 [of k] f9 [of k] f10 [of k] k
    by (auto simp: datetime_indexes_def uuid_indexes_def)
  ultimately show ?thesis by simp
qed

lemma update_float_coerced:
  assumes "update env c = Inr c'" and "k \<in> set float_indexes"
    and "map_of c k = Some v" and "\<not> is_float v"
  shows "\<exists>f. py_float env v = Inr f"
  using assms(1)
proof (rule update_stages_frames)
  fix c2 c5 c6 e c7 c8 c9
  assume s2: "update_ping (AList.update ''name'' (PStr (GIT_BASE_NAME env)) c) = Inr c2"
    and s6: "for_each float_indexes (coerce_float env) c5 = Inr c6"
    and f5: "\<And>j. j \<noteq> ''raw_link'' \<Longrightarrow> j \<noteq> ''custom_pyfunceble_config'' \<Longrightarrow> j \<notin> set bool_indexes \<Longrightarrow>
       map_of c5 j = map_of c2 j"
  from assms(2) have k: "k \<noteq> ''name''" "k \<noteq> ''ping''" "k \<noteq> ''raw_link''"
    "k \<noteq> ''custom_pyfunceble_config''" "k \<notin> set bool_indexes"
    by (auto simp: float_indexes_def bool_indexes_def)
  have "map_of c2 k = map_of c k"
    using update_ping_frame [OF s2, of k] k by (simp add: update_conv')
  with f5 [of k] k assms(3) have c5: "map_of c5 k = Some v" by simp
  have "distinct float_indexes" by (simp add: float_indexes_def)
  with for_each_at [of "coerce_float env" float_indexes c5 c6 k] coerce_float_frame s6 assms(2)
  obtain a a' where step: "coerce_float env k a = Inr a'" and "map_of a k = map_of c5 k"
    by blast
  with c5 have "map_of a k = Some v" by simp
  from coerce_float_at [OF step this] assms(4) show ?thesis by blast
qed

lemma update_timestamp_present:
  assumes "update env c = Inr c'" and "k \<in> set timestamp_indexes" and "map_of c k = Some v"
  shows "\<exists>d. map_of c' k = Some (PDatetime d)"
  using assms(1)
proof (rule update_stages_frames)
  fix c2 c5 c6 e c7 c8 c9
  assume s2: "update_ping (AList.update ''name'' (PStr (GIT_BASE_NAME env)) c) = Inr c2"
    and s6: "for_each float_indexes (coerce_float env) c5 = Inr c6"
    and s7: "for_each timestamp_indexes (convert_timestamp env e) c6 = Inr c7"
    and f5: "\<And>j. j \<noteq> ''raw_link'' \<Longrightarrow> j \<noteq> ''custom_pyfunceble_config'' \<Longrightarrow> j \<notin> set bool_indexes \<Longrightarrow>
       map_of c5 j = map_of c2 j"
    and f6: "\<And>j. j \<notin> set float_indexes \<Longrightarrow> map_of c6 j = map_of c5 j"
    and f8: "\<And>j. j \<notin> set datetime_indexes \<Longrightarrow> map_of c8 j = map_of c7 j"
    and f9: "\<And>j. j \<notin> set uuid_indexes \<Longrightarrow> map_of c9 j = map_of c8 j"
    and f10: "\<And>j. j \<noteq> ''repo'' \<Longrightarrow> j \<noteq> ''platform_container_name'' \<Longrightarrow> map_of c' j = map_of c9 j"
  from assms(2) have k:
    "k = ''finish_timestamp'' \<or> k = ''last_download_timestamp'' \<or>
     k = ''latest_part_finish_timestamp'' \<or> k = ''latest_part_start_timestamp'' \<or>
     k = ''start_timestamp''"
    by (simp add: timestamp_indexes_def)
  have "map_of c2 k = map_of c k"
    using update_ping_frame [OF s2, of k] k by (auto simp: update_conv')
  moreover have "map_of c5 k = map_of c2 k"
    using f5 [of k] k by (auto simp: bool_indexes_def)
  ultimately have c5: "map_of c5 k = Some v" using assms(3) by simp
  have "\<exists>w. map_of c6 k = Some w"
  proof (cases "k \<in> set float_indexes")
    case True
    have "distinct float_indexes" by (simp add: float_indexes_def)
    with for_each_at [of "coerce_float env" float_indexes c5 c6 k] coerce_float_frame s6 True
    obtain a a' where step: "coerce_float env k a = Inr a'"
      and "map_of a k = map_of c5 k" and "map_of a' k = map_of c6 k"
      by blast
    with c5 coerce_float_at [OF step, of v] show ?thesis by (cases "is_float v") auto
  next
    case False
    with f6 [of k] c5 show ?thesis by simp
  qed
  then obtain w where c6: "map_of c6 k = Some w" ..
  have "distinct timestamp_indexes" by (simp add: timestamp_indexes_def)
  with for_each_at [of "convert_timestamp env e" timestamp_indexes c6 c7 k]
    convert_timestamp_frame s7 assms(2)
  obtain a a' where step: "convert_timestamp env e k a = Inr a'"
    and "map_of a k = map_of c6 k" and c7: "map_of a' k = map_of c7 k"
    by blast
  with c6 have "map_of a k = Some w" by simp
  with step have "\<exists>d. map_of a' k = Some (PDatetime d)"
    by (cases w) (auto simp: convert_timestamp_def and_then_Inr update_conv')
  moreover have "map_of c' k = map_of c7 k"
    using f8 [of k] f9 [of k] f10 [of k] k
    by (auto simp: datetime_indexes_def uuid_indexes_def)
  ultimately show ?thesis using c7 by simp
qed

lemma update_datetime_kept:
  assumes "update env c = Inr c'" and "k \<in> set datetime_indexes"
    and "map_of c k = Some v" and "is_datetime v \<or> \<not> truthy v"
    and "utcfromtimestamp env (PInt 0) = Inr e"
  shows "map_of c' k = Some (PDatetime e)"
  using assms(1)
proof (rule update_stages_frames)
  fix c2 c5 c6 e' c7 c8 c9
  assume s2: "update_ping (AList.update ''name'' (PStr (GIT_BASE_NAME env)) c) = Inr c2"
    and e': "utcfromtimestamp env (PInt 0) = Inr e'"
    and s8: "for_each datetime_indexes (convert_datetime env e') c7 = Inr c8"
    and f5: "\<And>j. j \<noteq> ''raw_link'' \<Longrightarrow> j \<noteq> ''custom_pyfunceble_config'' \<Longrightarrow> j \<notin> set bool_indexes \<Longrightarrow>
       map_of c5 j = map_of c2 j"
    and f6: "\<And>j. j \<notin> set float_indexes \<Longrightarrow> map_of c6 j = map_of c5 j"
    and f7: "\<And>j. j \<notin> set timestamp_indexes \<Longrightarrow> map_of c7 j = map_of c6 j"
    and f9: "\<And>j. j \<notin> set uuid_indexes \<Longrightarrow> map_of c9 j = map_of c8 j"
    and f10: "\<And>j. j \<noteq> ''repo'' \<Longrightarrow> j \<noteq> ''platform_container_name'' \<Longrightarrow> map_of c' j = map_of c9 j"
  from e' assms(5) have [simp]: "e' = e" by simp
  from assms(2) have k:
    "k = ''finish_datetime'' \<or> k = ''last_download_datetime'' \<or>
     k = ''latest_part_finish_datetime'' \<or> k = ''latest_part_start_datetime'' \<or>
     k = ''start_datetime''"
    by (simp add: datetime_indexes_def)
  have "map_of c2 k = map_of c k"
    using update_ping_frame [OF s2, of k] k by (auto simp: update_conv')
  moreover have "map_of c7 k = map_of c2 k"
    using f5 [of k] f6 [of k] f7 [of k] k
    by (auto simp: bool_indexes_def float_indexes_def timestamp_indexes_def)
  ultimately have c7: "map_of c7 k = Some v" using assms(3) by simp
  have "distinct datetime_indexes" by (simp add: datetime_indexes_def)
  with for_each_at [of "convert_datetime env e'" datetime_indexes c7 c8 k]
    convert_datetime_frame s8 assms(2)
  obtain a a' where step: "convert_datetime env e' k a = Inr a'"
    and "map_of a k = map_of c7 k" and c8: "map_of a' k = map_of c8 k"
    by blast
  with c7 have "map_of a k = Some v" by simp
  with step assms(4) have "map_of a' k = Some (PDatetime e)"
    by (auto simp: convert_datetime_def update_conv')
  moreover have "map_of c' k = map_of c8 k"
    using f9 [of k] f10 [of k] k by (auto simp: uuid_indexes_def)
  ultimately show ?thesis using c8 by simp
qed

lemma indexes_finish_timestamp:
  "indexes env = Inr ixs \<Longrightarrow> \<exists>t. map_of ixs ''finish_timestamp'' = Some (PFloat t)"
  by (auto simp: indexes_def and_then_Inr Let_def)

text \<open>
  Claim C1 against the code. Where \<^verbatim>\<open>float\<close> rejects a \<^verbatim>\<open>datetime\<close>, as Python's does, no
  record is a fixed point of \<^verbatim>\<open>update\<close>, \<^verbatim>\<open>create_missing_index\<close> and \<^verbatim>\<open>clean\<close> run in
  a row: whenever a first run returns a record, a second run on that record raises or
  returns another record. A \<^verbatim>\<open>finish_timestamp\<close> that was loaded is a \<^verbatim>\<open>datetime\<close> after
  the first run, and the float coercion of the second run raises on it; one that was
  missing is the default float after the first run and a \<^verbatim>\<open>datetime\<close> after the second.
\<close>

theorem normalize_content_not_idempotent:
  assumes "normalize_content env c = Inr c1"
    and "\<And>d. \<exists>x. py_float env (PDatetime d) = Inl x"
  shows "normalize_content env c1 \<noteq> Inr c1"
proof
  assume again: "normalize_content env c1 = Inr c1"
  from normalize_content_at [OF assms(1)] obtain u ixs where
    u: "update env c = Inr u" and ixs: "indexes env = Inr ixs" and
    c1: "map_of c1 ''finish_timestamp''
           = (case map_of u ''finish_timestamp'' of
                None \<Rightarrow> map_of ixs ''finish_timestamp'' | Some v \<Rightarrow> Some v)"
    by (auto simp: clean_indexes_def)
  from normalize_content_at [OF again] obtain u' ixs' where
    u': "update env c1 = Inr u'" and
    c1': "map_of c1 ''finish_timestamp''
           = (case map_of u' ''finish_timestamp'' of
                None \<Rightarrow> map_of ixs' ''finish_timestamp'' | Some v \<Rightarrow> Some v)"
    by (auto simp: clean_indexes_def)
  from u obtain e where e: "utcfromtimestamp env (PInt 0) = Inr e"
    by (rule update_stages)
  have ts: "''finish_timestamp'' \<in> set timestamp_indexes"
    and fl: "''finish_timestamp'' \<in> set float_indexes"
    by (simp_all add: timestamp_indexes_def float_indexes_def)
  show False
  proof (cases "map_of c ''finish_timestamp''")
    case None
    from update_timestamp_absent [OF u ts None] indexes_finish_timestamp [OF ixs] c1
    obtain t where t: "map_of c1 ''finish_timestamp'' = Some (PFloat t)" by auto
    from update_timestamp_float [OF u' ts t _ e]
    obtain d where "map_of u' ''finish_timestamp'' = Some (PDatetime d)" by auto
    with c1' t show False by simp
  next
    case (Some v)
    from update_timestamp_present [OF u ts Some] c1
    obtain d where d: "map_of c1 ''finish_timestamp'' = Some (PDatetime d)" by auto
    from update_float_coerced [OF u' fl d] assms(2) [of d] show False by auto
  qed
qed

text \<open>
  The empty record on a POSIX host: the first run fills in the defaults of fifteen days
  before the clock; the second run returns, with every \<^verbatim>\<open>*_datetime\<close> field reset to the
  epoch and every \<^verbatim>\<open>*_timestamp\<close> field turned from a float into a \<^verbatim>\<open>datetime\<close>.
\<close>

lemma posix_env_0_library:
  "utcfromtimestamp (posix_env 0) (PInt 0) = Inr (Datetime 0)"
  "utcfromtimestamp (posix_env 0) (PFloat (Finite 1698704000)) = Inr (Datetime 1698704000000000)"
  "py_float (posix_env 0) (PInt 2) = Inr (Finite 2)"
  by code_simp+

lemma posix_env_float_datetime: "\<exists>x. py_float (posix_env utcoffset) (PDatetime d) = Inl x"
  by (simp add: posix_env_def)

lemma posix_env_0_update:
  "update (posix_env 0) []
     = Inr [(''name'', PStr ''example-list''), (''repo'', PStr ''dead-hosts/example-list''),
            (''platform_container_name'', PStr ''example-list'')]"
  by code_simp

lemma posix_env_0_indexes:
  "indexes (posix_env 0)
     = Inr
        [(''currently_under_test'', PBool False),
         (''custom_pyfunceble_config'', PDict []),
         (''days_until_next_test'', PInt 2),
         (''finish_datetime'', PDatetime (Datetime 1698704000000000)),
         (''finish_timestamp'', PFloat (Finite 1698704000)),
         (''last_download_datetime'', PDatetime (Datetime 1698704000000000)),
         (''last_download_timestamp'', PFloat (Finite 1698704000)),
         (''latest_part_finish_timestamp'', PFloat (Finite 1698704000)),
         (''latest_part_start_timestamp'', PFloat (Finite 1698704000)),
         (''latest_part_finish_datetime'', PDatetime (Datetime 1698704000000000)),
         (''latest_part_start_datetime'', PDatetime (Datetime 1698704000000000)),
         (''name'', PStr ''example-list''),
         (''repo'', PStr ''dead-hosts/example-list''),
         (''platform_container_name'', PStr ''example-list''),
         (''platform_description'', PStr ''Imported from Dead-Hosts legacy infrastructure.''),
         (''own_management'', PBool False),
         (''ping'', PList []),
         (''ping_enabled'', PBool False),
         (''raw_link'', PNone),
         (''start_datetime'', PDatetime (Datetime 1698704000000000)),
         (''start_timestamp'', PFloat (Finite 1698704000)),
         (''live_update'', PBool True),
         (''platform_container_id'', PNone),
         (''platform_remote_source_id'', PNone),
         (''platform_optout'', PBool False)]"
  by code_simp

theorem normalize_content_not_idempotent_witness:
  "field ''finish_datetime'' (normalize_content (posix_env 0) [])
     = Inr (Some (PDatetime (Datetime 1698704000000000)))
   \<and> field ''finish_datetime''
         (and_then (normalize_content (posix_env 0) []) (normalize_content (posix_env 0)))
     = Inr (Some (PDatetime (Datetime 0)))
   \<and> field ''finish_timestamp'' (normalize_content (posix_env 0) [])
     = Inr (Some (PFloat (Finite 1698704000)))
   \<and> field ''finish_timestamp''
         (and_then (normalize_content (posix_env 0) []) (normalize_content (posix_env 0)))
     = Inr (Some (PDatetime (Datetime 1698704000000000)))
   \<and> and_then (normalize_content (posix_env 0) []) (normalize_content (posix_env 0))
     \<noteq> normalize_content (posix_env 0) []"
proof -
  note lib = posix_env_0_library
  obtain r where r: "normalize_content (posix_env 0) [] = Inr r"
    by (simp add: normalize_content_def create_missing_index_def and_then_def
          posix_env_0_update posix_env_0_indexes)
  from normalize_content_not_idempotent [OF r posix_env_float_datetime]
  have differs: "normalize_content (posix_env 0) r \<noteq> Inr r" .
  from normalize_content_at [OF r]
  have r_at: "map_of r k
                = (if k \<in> set clean_indexes then None
                   else (case map_of [(''name'', PStr ''example-list''), (''repo'', PStr ''dead-hosts/example-list''),
            (''platform_container_name'', PStr ''example-list'')] k of
                           None \<Rightarrow> map_of
        [(''currently_under_test'', PBool False),
         (''custom_pyfunceble_config'', PDict []),
         (''days_until_next_test'', PInt 2),
         (''finish_datetime'', PDatetime (Datetime 1698704000000000)),
         (''finish_timestamp'', PFloat (Finite 1698704000)),
         (''last_download_datetime'', PDatetime (Datetime 1698704000000000)),
         (''last_download_timestamp'', PFloat (Finite 1698704000)),
         (''latest_part_finish_timestamp'', PFloat (Finite 1698704000)),
         (''latest_part_start_timestamp'', PFloat (Finite 1698704000)),
         (''latest_part_finish_datetime'', PDatetime (Datetime 1698704000000000)),
         (''latest_part_start_datetime'', PDatetime (Datetime 1698704000000000)),
         (''name'', PStr ''example-list''),
         (''repo'', PStr ''dead-hosts/example-list''),
         (''platform_container_name'', PStr ''example-list''),
         (''platform_description'', PStr ''Imported from Dead-Hosts legacy infrastructure.''),
         (''own_management'', PBool False),
         (''ping'', PList []),
         (''ping_enabled'', PBool False),
         (''raw_link'', PNone),
         (''start_datetime'', PDatetime (Datetime 1698704000000000)),
         (''start_timestamp'', PFloat (Finite 1698704000)),
         (''live_update'', PBool True),
         (''platform_container_id'', PNone),
         (''platform_remote_source_id'', PNone),
         (''platform_optout'', PBool False)] k
                         | Some v \<Rightarrow> Some v))" for k
    by (simp add: posix_env_0_update posix_env_0_indexes)

  have r0: "map_of r ''list_name'' = None"
    by (simp add: r_at clean_indexes_def)

  have r1: "map_of r ''ping'' = Some (PList [])"
    by (simp add: r_at clean_indexes_def)

  have r2: "map_of r ''currently_under_test'' = Some (PBool False)"
    by (simp add: r_at clean_indexes_def)

  have r3: "map_of r ''ping_enabled'' = Some (PBool False)"
    by (simp add: r_at clean_indexes_def)

  have r4: "map_of r ''days_until_next_test'' = Some (PInt 2)"
    by (simp add: r_at clean_indexes_def)

  have r5: "map_of r ''finish_timestamp'' = Some (PFloat (Finite 1698704000))"
    by (simp add: r_at clean_indexes_def)

  have r6: "map_of r ''last_download_timestamplatest_part_finish_timestamp'' = None"
    by (simp add: r_at clean_indexes_def)

  have r7: "map_of r ''last_download_timestamp'' = Some (PFloat (Finite 1698704000))"
    by (simp add: r_at clean_indexes_def)

  have r8: "map_of r ''latest_part_finish_timestamp'' = Some (PFloat (Finite 1698704000))"
    by (simp add: r_at clean_indexes_def)

  have r9: "map_of r ''latest_part_start_timestamp'' = Some (PFloat (Finite 1698704000))"
    by (simp add: r_at clean_indexes_def)

  have r10: "map_of r ''start_timestamp'' = Some (PFloat (Finite 1698704000))"
    by (simp add: r_at clean_indexes_def)

  have r11: "map_of r ''finish_datetime'' = Some (PDatetime (Datetime 1698704000000000))"
    by (simp add: r_at clean_indexes_def)

  have r12: "map_of r ''last_download_datetime'' = Some (PDatetime (Datetime 1698704000000000))"
    by (simp add: r_at clean_indexes_def)

  have r13: "map_of r ''latest_part_finish_datetime'' = Some (PDatetime (Datetime 1698704000000000))"
    by (simp add: r_at clean_indexes_def)

  have r14: "map_of r ''latest_part_start_datetime'' = Some (PDatetime (Datetime 1698704000000000))"
    by (simp add: r_at clean_indexes_def)

  have r15: "map_of r ''start_datetime'' = Some (PDatetime (Datetime 1698704000000000))"
    by (simp add: r_at clean_indexes_def)

  have r16: "map_of r ''platform_container_id'' = Some (PNone)"
    by (simp add: r_at clean_indexes_def)

  have r17: "map_of r ''platform_remote_source_id'' = Some (PNone)"
    by (simp add: r_at clean_indexes_def)

  note r_facts = r0 r1 r2 r3 r4 r5 r6 r7 r8 r9 r10 r11 r12 r13 r14 r15 r16 r17
  have "\<exists>u. update (posix_env 0) r = Inr u"
  proof (rule update_succeeds [where e = "Datetime 0"])
    show "utcfromtimestamp (posix_env 0) (PInt 0) = Inr (Datetime 0)" by (rule lib)
  qed (auto simp: r_facts lib bool_indexes_def float_indexes_def timestamp_indexes_def
         datetime_indexes_def uuid_indexes_def try_except_def)
  then obtain u where u: "update (posix_env 0) r = Inr u" ..
  have "\<exists>d. try_except (utcfromtimestamp (posix_env 0) (PFloat (Finite 1698704000))) OSError (Datetime 0)
               = Inr d
          \<and> map_of u ''finish_timestamp'' = Some (PDatetime d)"
    by (rule update_timestamp_float [OF u _ r5 _ lib(1)]) (simp_all add: timestamp_indexes_def)
  then have u_ft: "map_of u ''finish_timestamp'' = Some (PDatetime (Datetime 1698704000000000))"
    by (simp add: lib try_except_def)
  have u_fd: "map_of u ''finish_datetime'' = Some (PDatetime (Datetime 0))"
    by (rule update_datetime_kept [OF u _ r11 _ lib(1)]) (simp_all add: datetime_indexes_def)
  have "field ''finish_timestamp'' (normalize_content (posix_env 0) r)
          = Inr (Some (PDatetime (Datetime 1698704000000000)))"
    and "field ''finish_datetime'' (normalize_content (posix_env 0) r)
          = Inr (Some (PDatetime (Datetime 0)))"
    by (simp_all add: field_normalize u and_then_def posix_env_0_indexes u_ft u_fd
          clean_indexes_def)
  with r r5 r11 differs show ?thesis
    by (simp add: field_def and_then_def)
qed

subsection \<open>Persisting and loading\<close>

lemma posix_env_3600_library:
  "utcfromtimestamp (posix_env 3600) (PInt 0) = Inr (Datetime 0)"
  "timestamp (posix_env 3600) (Datetime 100000000000) = Inr (Finite 96400)"
  "timestamp (posix_env 3600) (Datetime 1698704000000000) = Inr (Finite 1698700400)"
  "isoformat (posix_env 3600) (Datetime 1698704000000000) = ''2023-10-30T22:13:20''"
  "fromisoformat (posix_env 3600) (PStr ''2023-10-30T22:13:20'') = Inr (Datetime 1698704000000000)"
  "utcfromtimestamp (posix_env 3600) (PFloat (Finite 96400)) = Inr (Datetime 96400000000)"
  "utcfromtimestamp (posix_env 3600) (PFloat (Finite 1698700400)) = Inr (Datetime 1698700400000000)"
  "py_float (posix_env 3600) (PInt 2) = Inr (Finite 2)"
  by code_simp+

lemma posix_env_3600_timestamp: "\<exists>f. timestamp (posix_env 3600) d = Inr f"
  by (cases d) (simp add: posix_env_def)

lemma posix_env_3600_update:
  "update (posix_env 3600) [(''finish_timestamp'', PFloat (Finite 100000))]
     = Inr [(''finish_timestamp'', PDatetime (Datetime 100000000000)),
            (''name'', PStr ''example-list''), (''repo'', PStr ''dead-hosts/example-list''),
            (''platform_container_name'', PStr ''example-list'')]"
  by code_simp

lemma posix_env_3600_indexes:
  "indexes (posix_env 3600)
     = Inr
        [(''currently_under_test'', PBool False),
         (''custom_pyfunceble_config'', PDict []),
         (''days_until_next_test'', PInt 2),
         (''finish_datetime'', PDatetime (Datetime 1698704000000000)),
         (''finish_timestamp'', PFloat (Finite 1698700400)),
         (''last_download_datetime'', PDatetime (Datetime 1698704000000000)),
         (''last_download_timestamp'', PFloat (Finite 1698700400)),
         (''latest_part_finish_timestamp'', PFloat (Finite 1698700400)),
         (''latest_part_start_timestamp'', PFloat (Finite 1698700400)),
         (''latest_part_finish_datetime'', PDatetime (Datetime 1698704000000000)),
         (''latest_part_start_datetime'', PDatetime (Datetime 1698704000000000)),
         (''name'', PStr ''example-list''),
         (''repo'', PStr ''dead-hosts/example-list''),
         (''platform_container_name'', PStr ''example-list''),
         (''platform_description'', PStr ''Imported from Dead-Hosts legacy infrastructure.''),
         (''own_management'', PBool False),
         (''ping'', PList []),
         (''ping_enabled'', PBool False),
         (''raw_link'', PNone),
         (''start_datetime'', PDatetime (Datetime 1698704000000000)),
         (''start_timestamp'', PFloat (Finite 1698700400)),
         (''live_update'', PBool True),
         (''platform_container_id'', PNone),
         (''platform_remote_source_id'', PNone),
         (''platform_optout'', PBool False)]"
  by code_simp

text \<open>
  Claim C5 against the code. On a host whose local time is one hour ahead of UTC, a file
  holding \<^verbatim>\<open>finish_timestamp = 100000.0\<close> is loaded as the instant 100000 s after the
  epoch; \<^verbatim>\<open>store\<close> writes that instant as \<^verbatim>\<open>96400.0\<close>, and the fresh load and
  normalisation of the written file holds the instant 96400 s after the epoch, one hour
  before the instant that was persisted.
\<close>

theorem store_reload_shifts_timestamp:
  "field ''finish_timestamp'' (normalize_content (posix_env 3600) [(''finish_timestamp'', PFloat (Finite 100000))])
     = Inr (Some (PDatetime (Datetime 100000000000)))
   \<and> field ''finish_timestamp''
         (and_then (normalize_content (posix_env 3600) [(''finish_timestamp'', PFloat (Finite 100000))]) (store (posix_env 3600)))
     = Inr (Some (PFloat (Finite 96400)))
   \<and> field ''finish_timestamp''
         (and_then
            (and_then (normalize_content (posix_env 3600) [(''finish_timestamp'', PFloat (Finite 100000))]) (store (posix_env 3600)))
            (normalize_content (posix_env 3600)))
     = Inr (Some (PDatetime (Datetime 96400000000)))"
proof -
  note lib = posix_env_3600_library
  obtain r where r: "normalize_content (posix_env 3600) [(''finish_timestamp'', PFloat (Finite 100000))] = Inr r"
    by (simp add: normalize_content_def create_missing_index_def and_then_def
          posix_env_3600_update posix_env_3600_indexes)
  from normalize_content_at [OF r]
  have r_at: "map_of r k
                = (if k \<in> set clean_indexes then None
                   else (case map_of [(''finish_timestamp'', PDatetime (Datetime 100000000000)),
            (''name'', PStr ''example-list''), (''repo'', PStr ''dead-hosts/example-list''),
            (''platform_container_name'', PStr ''example-list'')] k of
                           None \<Rightarrow> map_of
        [(''currently_under_test'', PBool False),
         (''custom_pyfunceble_config'', PDict []),
         (''days_until_next_test'', PInt 2),
         (''finish_datetime'', PDatetime (Datetime 1698704000000000)),
         (''finish_timestamp'', PFloat (Finite 1698700400)),
         (''last_download_datetime'', PDatetime (Datetime 1698704000000000)),
         (''last_download_timestamp'', PFloat (Finite 1698700400)),
         (''latest_part_finish_timestamp'', PFloat (Finite 1698700400)),
         (''latest_part_start_timestamp'', PFloat (Finite 1698700400)),
         (''latest_part_finish_datetime'', PDatetime (Datetime 1698704000000000)),
         (''latest_part_start_datetime'', PDatetime (Datetime 1698704000000000)),
         (''name'', PStr ''example-list''),
         (''repo'', PStr ''dead-hosts/example-list''),
         (''platform_container_name'', PStr ''example-list''),
         (''platform_description'', PStr ''Imported from Dead-Hosts legacy infrastructure.''),
         (''own_management'', PBool False),
         (''ping'', PList []),
         (''ping_enabled'', PBool False),
         (''raw_link'', PNone),
         (''start_datetime'', PDatetime (Datetime 1698704000000000)),
         (''start_timestamp'', PFloat (Finite 1698700400)),
         (''live_update'', PBool True),
         (''platform_container_id'', PNone),
         (''platform_remote_source_id'', PNone),
         (''platform_optout'', PBool False)] k
                         | Some v \<Rightarrow> Some v))" for k
    by (simp add: posix_env_3600_update posix_env_3600_indexes)
  have r_distinct: "distinct (map fst r)"
    by (rule normalize_content_distinct [OF r]) simp
  from store_succeeds [of "posix_env 3600" r] posix_env_3600_timestamp
  obtain w where w: "store (posix_env 3600) r = Inr w" by blast
  note w_at = store_at [OF w r_distinct]

  have r0: "map_of r ''list_name'' = None"
    by (simp add: r_at clean_indexes_def)
  have w0: "map_of w ''list_name'' = None"
    by (simp add: w_at r0 lib endswith_def and_then_def try_except_def)

  have r1: "map_of r ''ping'' = Some (PList [])"
    by (simp add: r_at clean_indexes_def)
  have w1: "map_of w ''ping'' = Some (PList [])"
    by (simp add: w_at r1 lib endswith_def and_then_def try_except_def)

  have r2: "map_of r ''currently_under_test'' = Some (PBool False)"
    by (simp add: r_at clean_indexes_def)
  have w2: "map_of w ''currently_under_test'' = Some (PBool False)"
    by (simp add: w_at r2 lib endswith_def and_then_def try_except_def)

  have r3: "map_of r ''ping_enabled'' = Some (PBool False)"
    by (simp add: r_at clean_indexes_def)
  have w3: "map_of w ''ping_enabled'' = Some (PBool False)"
    by (simp add: w_at r3 lib endswith_def and_then_def try_except_def)

  have r4: "map_of r ''days_until_next_test'' = Some (PInt 2)"
    by (simp add: r_at clean_indexes_def)
  have w4: "map_of w ''days_until_next_test'' = Some (PInt 2)"
    by (simp add: w_at r4 lib endswith_def and_then_def try_except_def)

  have r5: "map_of r ''finish_timestamp'' = Some (PDatetime (Datetime 100000000000))"
    by (simp add: r_at clean_indexes_def)
  have w5: "map_of w ''finish_timestamp'' = Some (PFloat (Finite 96400))"
    by (simp add: w_at r5 lib endswith_def and_then_def try_except_def)

  have r6: "map_of r ''last_download_timestamplatest_part_finish_timestamp'' = None"
    by (simp add: r_at clean_indexes_def)
  have w6: "map_of w ''last_download_timestamplatest_part_finish_timestamp'' = None"
    by (simp add: w_at r6 lib endswith_def and_then_def try_except_def)

  have r7: "map_of r ''last_download_timestamp'' = Some (PFloat (Finite 1698700400))"
    by (simp add: r_at clean_indexes_def)
  have w7: "map_of w ''last_download_timestamp'' = Some (PFloat (Finite 1698700400))"
    by (simp add: w_at r7 lib endswith_def and_then_def try_except_def)

  have r8: "map_of r ''latest_part_finish_timestamp'' = Some (PFloat (Finite 1698700400))"
    by (simp add: r_at clean_indexes_def)
  have w8: "map_of w ''latest_part_finish_timestamp'' = Some (PFloat (Finite 1698700400))"
    by (simp add: w_at r8 lib endswith_def and_then_def try_except_def)

  have r9: "map_of r ''latest_part_start_timestamp'' = Some (PFloat (Finite 1698700400))"
    by (simp add: r_at clean_indexes_def)
  have w9: "map_of w ''latest_part_start_timestamp'' = Some (PFloat (Finite 1698700400))"
    by (simp add: w_at r9 lib endswith_def and_then_def try_except_def)

  have r10: "map_of r ''start_timestamp'' = Some (PFloat (Finite 1698700400))"
    by (simp add: r_at clean_indexes_def)
  have w10: "map_of w ''start_timestamp'' = Some (PFloat (Finite 1698700400))"
    by (simp add: w_at r10 lib endswith_def and_then_def try_except_def)

  have r11: "map_of r ''finish_datetime'' = Some (PDatetime (Datetime 1698704000000000))"
    by (simp add: r_at clean_indexes_def)
  have w11: "map_of w ''finish_datetime'' = Some (PStr ''2023-10-30T22:13:20'')"
    by (simp add: w_at r11 lib endswith_def and_then_def try_except_def)

  have r12: "map_of r ''last_download_datetime'' = Some (PDatetime (Datetime 1698704000000000))"
    by (simp add: r_at clean_indexes_def)
  have w12: "map_of w ''last_download_datetime'' = Some (PStr ''2023-10-30T22:13:20'')"
    by (simp add: w_at r12 lib endswith_def and_then_def try_except_def)

  have r13: "map_of r ''latest_part_finish_datetime'' = Some (PDatetime (Datetime 1698704000000000))"
    by (simp add: r_at clean_indexes_def)
  have w13: "map_of w ''latest_part_finish_datetime'' = Some (PStr ''2023-10-30T22:13:20'')"
    by (simp add: w_at r13 lib endswith_def and_then_def try_except_def)

  have r14: "map_of r ''latest_part_start_datetime'' = Some (PDatetime (Datetime 1698704000000000))"
    by (simp add: r_at clean_indexes_def)
  have w14: "map_of w ''latest_part_start_datetime'' = Some (PStr ''2023-10-30T22:13:20'')"
    by (simp add: w_at r14 lib endswith_def and_then_def try_except_def)

  have r15: "map_of r ''start_datetime'' = Some (PDatetime (Datetime 1698704000000000))"
    by (simp add: r_at clean_indexes_def)
  have w15: "map_of w ''start_datetime'' = Some (PStr ''2023-10-30T22:13:20'')"
    by (simp add: w_at r15 lib endswith_def and_then_def try_except_def)

  have r16: "map_of r ''platform_container_id'' = Some (PNone)"
    by (simp add: r_at clean_indexes_def)
  have w16: "map_of w ''platform_container_id'' = Some (PNone)"
    by (simp add: w_at r16 lib endswith_def and_then_def try_except_def)

  have r17: "map_of r ''platform_remote_source_id'' = Some (PNone)"
    by (simp add: r_at clean_indexes_def)
  have w17: "map_of w ''platform_remote_source_id'' = Some (PNone)"
    by (simp add: w_at r17 lib endswith_def and_then_def try_except_def)

  note w_facts = w0 w1 w2 w3 w4 w5 w6 w7 w8 w9 w10 w11 w12 w13 w14 w15 w16 w17
  have "\<exists>u. update (posix_env 3600) w = Inr u"
  proof (rule update_succeeds [where e = "Datetime 0"])
    show "utcfromtimestamp (posix_env 3600) (PInt 0) = Inr (Datetime 0)" by (rule lib)
  qed (auto simp: w_facts lib bool_indexes_def float_indexes_def timestamp_indexes_def
         datetime_indexes_def uuid_indexes_def try_except_def)
  then obtain u where u: "update (posix_env 3600) w = Inr u" ..
  have "\<exists>d. try_except (utcfromtimestamp (posix_env 3600) (PFloat (Finite 96400))) OSError (Datetime 0) = Inr d
          \<and> map_of u ''finish_timestamp'' = Some (PDatetime d)"
    by (rule update_timestamp_float [OF u _ w5 _ lib(1)]) (simp_all add: timestamp_indexes_def)
  then have u_ft: "map_of u ''finish_timestamp'' = Some (PDatetime (Datetime 96400000000))"
    by (simp add: lib try_except_def)
  have "field ''finish_timestamp'' (normalize_content (posix_env 3600) w)
          = Inr (Some (PDatetime (Datetime 96400000000)))"
    by (simp add: field_normalize u and_then_def posix_env_3600_indexes u_ft
          clean_indexes_def)
  with r w r5 w5 show ?thesis
    by (simp add: field_def and_then_def)
qed

end
